theory Spec2Isabelle
  imports Main "HOL-Library.Monad_Syntax"
begin

section \<open>Data model (types.ts)\<close>

datatype CellState = EMPTY | SHIP | HIT | MISS | SUNK | DECOY | RADAR_CONTACT

datatype GamePhase = LOBBY | SETUP | PLAYING | GAME_OVER | TURN_TRANSITION

datatype GameMode = CLASSIC | TACTICAL

text \<open>
  The six tactical roles. In classic mode \<open>getGameConfig\<close> stores the ship's name in the
  \<open>type\<close> field (\<open>type: s.name as any\<close>), which is the constructor \<open>Plain\<close>.
\<close>

datatype ShipType = Mothership | Radarship | Repairship | Commandship | Decoyship | Jamship
  | Plain string

text \<open>A position \<open>{x, y}\<close> is the pair \<open>(x, y)\<close>; JavaScript numbers are modelled as \<open>int\<close>.\<close>

type_synonym coord = "int \<times> int"

type_synonym Grid = "CellState list list"

record Ship =
  sname :: string
  stype :: ShipType
  slength :: int
  positions :: "coord list"
  isSunk :: bool
  isDamaged :: bool
  hasBeenRepaired :: bool
  hasBeenRelocated :: bool

record ShipConfig =
  cfg_name :: string
  cfg_type :: ShipType
  cfg_length :: int

text \<open>
  An object used as a dictionary is a map. The optional fields \<open>jammedPositions\<close>,
  \<open>jamTurnsRemaining\<close> and \<open>escapeSkillUnlocked\<close> are options (\<open>None\<close> is \<open>undefined\<close>).
\<close>

record Player =
  pid :: string
  pname :: string
  isAI :: bool
  grid :: Grid
  ships :: "Ship list"
  shots :: "string \<rightharpoonup> Grid"
  isReady :: bool
  isEliminated :: bool
  score :: int
  skillCooldowns :: "ShipType \<rightharpoonup> int"
  skillUses :: "ShipType \<rightharpoonup> int"
  decoyPositions :: "coord list"
  jammedPositions :: "coord list option"
  jamTurnsRemaining :: "int option"
  escapeSkillUnlocked :: "bool option"

datatype LogResult = LOG_HIT | LOG_MISS | LOG_SUNK_SHIP | LOG_SHOT_FIRED | LOG_SKILL_USED

record GameLogEntry =
  le_turn :: int
  le_playerId :: string
  le_playerName :: string
  le_targetId :: "string option"
  le_targetName :: "string option"
  le_coords :: "coord option"
  le_result :: LogResult
  le_sunkShipName :: "string option"
  le_hitShipName :: "string option"
  le_message :: "string option"

datatype ActionType = ACT_ATTACK | ACT_SKILL

datatype ActionStage = SELECT_SHIP | PLACE_SHIP | PLACE_DECOY

record ActiveAction =
  aa_playerId :: string
  aa_type :: ActionType
  aa_shipType :: "ShipType option"
  aa_stage :: "ActionStage option"
  aa_shipToMove :: "Ship option"
  aa_isHorizontal :: "bool option"
  aa_originalPositions :: "(int \<times> int \<times> CellState) list option"

record GridDimensions =
  rows :: int
  cols :: int

record RadarScanResult =
  rs_playerId :: string
  rs_results :: "(int \<times> int \<times> CellState) list"

record JammedArea =
  ja_playerId :: string
  ja_coords :: "coord list"

text \<open>
  \<open>activeAction\<close>, \<open>radarScanResult\<close> and \<open>jammedArea\<close> are optional and nullable in the
  source; \<open>None\<close> stands for both \<open>null\<close> and \<open>undefined\<close>. The key \<open>`${x},${y}`\<close> of the
  hit log is the pair \<open>(x, y)\<close>.
\<close>

record GameState =
  gameId :: string
  phase :: GamePhase
  players :: "Player list"
  currentPlayerId :: "string option"
  winner :: "string option"
  maxPlayers :: int
  turn :: int
  gridDimensions :: GridDimensions
  shipsConfig :: "ShipConfig list"
  gameMode :: GameMode
  log :: "GameLogEntry list"
  hasActedThisTurn :: bool
  activeAction :: "ActiveAction option"
  radarScanResult :: "RadarScanResult option"
  jammedArea :: "JammedArea option"
  hitLog :: "(string \<rightharpoonup> (coord \<rightharpoonup> int)) option"
  lastHitTurn :: "(string \<rightharpoonup> int) option"

section \<open>Arrays and grids\<close>

text \<open>\<open>Array.prototype.findIndex\<close>; \<open>None\<close> is the source's \<open>-1\<close>.\<close>

fun findIndex :: "('a \<Rightarrow> bool) \<Rightarrow> 'a list \<Rightarrow> nat option" where
  "findIndex P [] = None"
| "findIndex P (a # as) = (if P a then Some 0 else map_option Suc (findIndex P as))"

text \<open>\<open>arr[i]\<close> for a number \<open>i\<close>: \<open>None\<close> is \<open>undefined\<close>.\<close>

definition at :: "'a list \<Rightarrow> int \<Rightarrow> 'a option" where
  "at xs i = (if 0 \<le> i \<and> i < int (length xs) then Some (xs ! nat i) else None)"

text \<open>
  \<open>grid[y][x]\<close>: the outer \<open>None\<close> is the TypeError of reading a property of \<open>undefined\<close>
  (no row \<open>y\<close>), \<open>Some None\<close> is the value \<open>undefined\<close> (row \<open>y\<close> has no column \<open>x\<close>).
\<close>

definition cellAt :: "Grid \<Rightarrow> int \<Rightarrow> int \<Rightarrow> CellState option option" where
  "cellAt g cx cy = map_option (\<lambda>row. at row cx) (at g cy)"

text \<open>
  \<open>grid[y][x] = v\<close>. Without row \<open>y\<close> the source throws. With a column outside the row the
  source grows the row (or adds a stray property), which is no grid any more: the model
  stops there, also with \<open>None\<close>.
\<close>

definition setCell :: "Grid \<Rightarrow> int \<Rightarrow> int \<Rightarrow> CellState \<Rightarrow> Grid option" where
  "setCell g cx cy v =
     (case at g cy of
        None \<Rightarrow> None
      | Some row \<Rightarrow>
          if 0 \<le> cx \<and> cx < int (length row)
          then Some (g[nat cy := row[nat cx := v]])
          else None)"

text \<open>\<open>createEmptyGrid\<close>: \<open>Array(n)\<close> throws a RangeError for a negative \<open>n\<close>.\<close>

definition createEmptyGrid :: "int \<Rightarrow> int \<Rightarrow> Grid option" where
  "createEmptyGrid r c =
     (if r < 0 \<or> (0 < r \<and> c < 0) then None
      else Some (replicate (nat r) (replicate (nat c) EMPTY)))"

section \<open>Turn advancement (advanceTurn)\<close>

text \<open>The \<open>for ... in\<close> loop over \<open>skillCooldowns\<close>: every key with a positive value loses one.\<close>

definition decrementCooldowns :: "(ShipType \<rightharpoonup> int) \<Rightarrow> (ShipType \<rightharpoonup> int)" where
  "decrementCooldowns m = (\<lambda>k. map_option (\<lambda>v. if 0 < v then v - 1 else v) (m k))"

text \<open>
  The loop that skips eliminated players. It has no bound of its own: with no current
  player (\<open>currentPlayerIndex = -1\<close>) and every player eliminated it never ends, which is
  the value \<open>None\<close>.
\<close>

partial_function (option) skipEliminated :: "Player list \<Rightarrow> nat option \<Rightarrow> nat \<Rightarrow> nat option" where
  "skipEliminated ps cur n =
     (if isEliminated (ps ! n)
      then (let n' = (n + 1) mod length ps
            in if Some n' = cur then Some n' else skipEliminated ps cur n')
      else Some n)"

definition endTurnPlayer :: "GameMode \<Rightarrow> Player \<Rightarrow> Player" where
  "endTurnPlayer m p =
     (let p1 = (if m = TACTICAL
                then p\<lparr>skillCooldowns := decrementCooldowns (skillCooldowns p)\<rparr> else p)
      in case jamTurnsRemaining p1 of
           None \<Rightarrow> p1
         | Some j \<Rightarrow>
             if 0 < j
             then (if j - 1 = 0
                   then p1\<lparr>jamTurnsRemaining := Some (j - 1), jammedPositions := Some []\<rparr>
                   else p1\<lparr>jamTurnsRemaining := Some (j - 1)\<rparr>)
             else p1)"

definition clearsJammedArea :: "GameState \<Rightarrow> Player \<Rightarrow> bool" where
  "clearsJammedArea s p =
     (case jamTurnsRemaining p of
        None \<Rightarrow> False
      | Some j \<Rightarrow> 0 < j \<and> j - 1 = 0 \<and>
          (case jammedArea s of None \<Rightarrow> False | Some a \<Rightarrow> ja_playerId a = pid p))"

definition advanceTurn :: "GameState \<Rightarrow> GameState option" where
  "advanceTurn gameState =
     (let cur = findIndex (\<lambda>p. Some (pid p) = currentPlayerId gameState) (players gameState);
          s1 = (case cur of
                  None \<Rightarrow> gameState
                | Some i \<Rightarrow>
                    let p = players gameState ! i
                    in gameState
                         \<lparr>players := (players gameState)[i := endTurnPlayer (gameMode gameState) p],
                          jammedArea := (if clearsJammedArea gameState p then None
                                         else jammedArea gameState)\<rparr>);
          ps = players s1
      in if ps = [] then None
         else do {
           nxt \<leftarrow> skipEliminated ps cur
                    ((case cur of None \<Rightarrow> 0 | Some i \<Rightarrow> i + 1) mod length ps);
           let nextPlayer = ps ! nxt;
           let hasMultipleHumans = 1 < length (filter (\<lambda>p. \<not> isAI p) ps);
           Some (s1\<lparr>phase := (if \<not> isAI nextPlayer \<and> hasMultipleHumans
                               then TURN_TRANSITION else phase s1),
                    turn := turn s1 + 1,
                    hasActedThisTurn := False,
                    currentPlayerId := Some (pid nextPlayer),
                    activeAction := None,
                    radarScanResult := None\<rparr>)
         })"

section \<open>Shot resolution (processShot)\<close>

text \<open>The property key \<open>attacker.shots[targetPlayerId]\<close>: \<open>null\<close> becomes the key \<open>"null"\<close>.\<close>

definition shotKey :: "string option \<Rightarrow> string" where
  "shotKey t = (case t of None \<Rightarrow> ''null'' | Some k \<Rightarrow> k)"

text \<open>
  \<open>positions.every(pos => grid[pos.y][pos.x] === HIT)\<close>, left to right, stopping at the
  first cell that is not a hit; \<open>None\<close> when a row that is read does not exist.
\<close>

fun everyHit :: "Grid \<Rightarrow> coord list \<Rightarrow> bool option" where
  "everyHit g [] = Some True"
| "everyHit g (p # ps) =
     (case cellAt g (fst p) (snd p) of
        None \<Rightarrow> None
      | Some c \<Rightarrow> if c = Some HIT then everyHit g ps else Some False)"

text \<open>\<open>positions.forEach(pos => { grid[pos.y][pos.x] = v })\<close>.\<close>

fun markAll :: "Grid \<Rightarrow> coord list \<Rightarrow> CellState \<Rightarrow> Grid option" where
  "markAll g [] v = Some g"
| "markAll g (p # ps) v =
     (case setCell g (fst p) (snd p) v of None \<Rightarrow> None | Some g' \<Rightarrow> markAll g' ps v)"

text \<open>The attacker's shot grid for the target, allocated on first use.\<close>

definition shotsGridFor :: "GameState \<Rightarrow> Player \<Rightarrow> string \<Rightarrow> Grid option" where
  "shotsGridFor s attacker key =
     (case shots attacker key of
        None \<Rightarrow> createEmptyGrid (rows (gridDimensions s)) (cols (gridDimensions s))
      | Some g \<Rightarrow> Some g)"

text \<open>
  The attacker and the target are objects of the deep copy, and they are the same object
  when a player fires at its own id. The attacker is only written through \<open>shots\<close> and
  the target through its other fields, so the writes are committed in that order on the
  player list.
\<close>

definition commitShot ::
  "GameState \<Rightarrow> nat \<Rightarrow> string \<Rightarrow> Grid \<Rightarrow> nat \<Rightarrow> (Player \<Rightarrow> Player) \<Rightarrow> GameState" where
  "commitShot s ai key sg ti f =
     (let a = players s ! ai;
          ps1 = (players s)[ai := a\<lparr>shots := (shots a)(key \<mapsto> sg)\<rparr>]
      in s\<lparr>players := ps1[ti := f (ps1 ! ti)]\<rparr>)"

definition baseLogEntry :: "GameState \<Rightarrow> Player \<Rightarrow> int \<Rightarrow> int \<Rightarrow> GameLogEntry" where
  "baseLogEntry s attacker x y =
     \<lparr>le_turn = turn s, le_playerId = pid attacker, le_playerName = pname attacker,
      le_targetId = None, le_targetName = None, le_coords = Some (x, y),
      le_result = LOG_MISS, le_sunkShipName = None, le_hitShipName = None,
      le_message = None\<rparr>"

definition recordHit :: "GameState \<Rightarrow> string \<Rightarrow> int \<Rightarrow> int \<Rightarrow> (string \<rightharpoonup> (coord \<rightharpoonup> int)) option" where
  "recordHit s tid x y =
     (let hl = (case hitLog s of None \<Rightarrow> Map.empty | Some h \<Rightarrow> h);
          inner = (case hl tid of None \<Rightarrow> Map.empty | Some m \<Rightarrow> m)
      in Some (hl(tid \<mapsto> inner((x, y) \<mapsto> turn s))))"

text \<open>The decoy branch of tactical mode: the shot is reported as a hit.\<close>

definition tacticalDecoyHit ::
  "GameState \<Rightarrow> nat \<Rightarrow> string \<Rightarrow> Grid \<Rightarrow> nat \<Rightarrow> nat \<Rightarrow> GameLogEntry \<Rightarrow> int \<Rightarrow> int
     \<Rightarrow> GameState option" where
  "tacticalDecoyHit gameState ai key sg ti di entry x y =
     (let target = players gameState ! ti
      in do {
        sg1 \<leftarrow> setCell sg x y HIT;
        c \<leftarrow> cellAt (grid target) x y;
        tg1 \<leftarrow> (if c = Some DECOY then setCell (grid target) x y EMPTY
                else Some (grid target));
        Some ((commitShot gameState ai key sg1 ti
                 (\<lambda>t. t\<lparr>decoyPositions :=
                           take di (decoyPositions target) @ drop (di + 1) (decoyPositions target),
                         grid := tg1\<rparr>))
              \<lparr>log := entry\<lparr>le_result := LOG_HIT,
                             le_hitShipName := Some ''unidentified contact''\<rparr>
                       # log gameState,
               hasActedThisTurn := False\<rparr>)
      })"

text \<open>The branch \<open>targetCell === SHIP\<close> of tactical mode.\<close>

definition tacticalShipHit ::
  "GameState \<Rightarrow> nat \<Rightarrow> string \<Rightarrow> Grid \<Rightarrow> nat \<Rightarrow> GameLogEntry \<Rightarrow> int \<Rightarrow> int
     \<Rightarrow> GameState option" where
  "tacticalShipHit gameState ai key sg ti entry x y =
     (let attacker = players gameState ! ai;
          target = players gameState ! ti
      in do {
        sg1 \<leftarrow> setCell sg x y HIT;
        si \<leftarrow> findIndex (\<lambda>sh. (x, y) \<in> set (positions sh)) (ships target);
        tg1 \<leftarrow> setCell (grid target) x y HIT;
        let hitShip = ships target ! si;
        let mother = (stype hitShip = Mothership);
        sunk \<leftarrow> everyHit tg1 (positions hitShip);
        if sunk then do {
          tg2 \<leftarrow> markAll tg1 (positions hitShip) SUNK;
          sg2 \<leftarrow> markAll sg1 (positions hitShip) SUNK;
          let s2 = (commitShot gameState ai key sg2 ti
               (\<lambda>t. t\<lparr>grid := tg2,
                       ships := (ships target)
                         [si := hitShip\<lparr>isDamaged := True, isSunk := True\<rparr>],
                       escapeSkillUnlocked :=
                         (if mother then Some True else escapeSkillUnlocked t),
                       isEliminated := (if mother then True else isEliminated t)\<rparr>))
            \<lparr>log := entry\<lparr>le_result := LOG_SUNK_SHIP,
                           le_sunkShipName := Some (sname hitShip)\<rparr>
                     # log gameState,
             hitLog := recordHit gameState (pid target) x y,
             hasActedThisTurn := mother\<rparr>;
          Some (if mother
                then s2\<lparr>phase := GAME_OVER, winner := Some (pid attacker)\<rparr>
                else s2)
        } else
          Some ((commitShot gameState ai key sg1 ti
               (\<lambda>t. t\<lparr>grid := tg1,
                       ships := (ships target)[si := hitShip\<lparr>isDamaged := True\<rparr>],
                       escapeSkillUnlocked :=
                         (if mother then Some True else escapeSkillUnlocked t)\<rparr>))
            \<lparr>log := entry\<lparr>le_result := LOG_HIT,
                           le_hitShipName := Some (sname hitShip)\<rparr>
                     # log gameState,
             hitLog := recordHit gameState (pid target) x y,
             hasActedThisTurn := mother\<rparr>)
      })"

text \<open>The miss branch of tactical mode; a decoy cell of the target grid is not overwritten.\<close>

definition tacticalMiss ::
  "GameState \<Rightarrow> nat \<Rightarrow> string \<Rightarrow> Grid \<Rightarrow> nat \<Rightarrow> CellState option \<Rightarrow> GameLogEntry \<Rightarrow> int \<Rightarrow> int
     \<Rightarrow> GameState option" where
  "tacticalMiss gameState ai key sg ti targetCell entry x y =
     (let target = players gameState ! ti
      in do {
        sg1 \<leftarrow> setCell sg x y MISS;
        tg1 \<leftarrow> (if targetCell \<noteq> Some DECOY then setCell (grid target) x y MISS
                else Some (grid target));
        Some ((commitShot gameState ai key sg1 ti (\<lambda>t. t\<lparr>grid := tg1\<rparr>))
              \<lparr>log := entry\<lparr>le_result := LOG_MISS\<rparr> # log gameState,
               hasActedThisTurn := True\<rparr>)
      })"

definition processShotTactical ::
  "GameState \<Rightarrow> nat \<Rightarrow> string option \<Rightarrow> int \<Rightarrow> int \<Rightarrow> GameState option" where
  "processShotTactical gameState ai targetPlayerId x y =
     (let attacker = players gameState ! ai;
          key = shotKey targetPlayerId;
          base = baseLogEntry gameState attacker x y
      in do {
        sg \<leftarrow> shotsGridFor gameState attacker key;
        current \<leftarrow> cellAt sg x y;
        if current \<noteq> Some EMPTY \<and> current \<noteq> Some RADAR_CONTACT then Some gameState
        else do {
          ti \<leftarrow> findIndex (\<lambda>p. Some (pid p) = targetPlayerId) (players gameState);
          let target = players gameState ! ti;
          let entry = base\<lparr>le_targetId := Some (pid target),
                           le_targetName := Some (pname target)\<rparr>;
          case findIndex (\<lambda>p. p = (x, y)) (decoyPositions target) of
            Some di \<Rightarrow> tacticalDecoyHit gameState ai key sg ti di entry x y
          | None \<Rightarrow> do {
              targetCell \<leftarrow> cellAt (grid target) x y;
              if targetCell = Some SHIP
              then tacticalShipHit gameState ai key sg ti entry x y
              else tacticalMiss gameState ai key sg ti targetCell entry x y
            }
        }
      })"

text \<open>
  The end of the classic branch: elimination of the target, the game-over test over all
  players, and the log entry.
\<close>

definition finishClassic :: "GameState \<Rightarrow> nat \<Rightarrow> GameLogEntry \<Rightarrow> GameState" where
  "finishClassic s ti entry =
     (let target = players s ! ti;
          s1 = (if list_all isSunk (ships target)
                then s\<lparr>players := (players s)[ti := target\<lparr>isEliminated := True\<rparr>]\<rparr>
                else s);
          activePlayers = filter (\<lambda>p. \<not> isEliminated p) (players s1);
          s2 = (if length activePlayers \<le> 1
                then s1\<lparr>phase := GAME_OVER,
                        winner := (case activePlayers of [p] \<Rightarrow> Some (pid p) | _ \<Rightarrow> None),
                        hasActedThisTurn := True\<rparr>
                else s1)
      in s2\<lparr>log := entry # log s2\<rparr>)"

text \<open>The hit branch of classic mode: a cell that reads \<open>SHIP\<close>, \<open>HIT\<close> or \<open>SUNK\<close>.\<close>

definition classicHit ::
  "GameState \<Rightarrow> nat \<Rightarrow> string \<Rightarrow> Grid \<Rightarrow> nat \<Rightarrow> GameLogEntry \<Rightarrow> int \<Rightarrow> int
     \<Rightarrow> GameState option" where
  "classicHit gameState ai key sg ti entry x y =
     (let target = players gameState ! ti
      in do {
        sg1 \<leftarrow> setCell sg x y HIT;
        tg1 \<leftarrow> setCell (grid target) x y HIT;
        case findIndex (\<lambda>sh. (x, y) \<in> set (positions sh)) (ships target) of
          None \<Rightarrow>
            Some (finishClassic
              ((commitShot gameState ai key sg1 ti (\<lambda>t. t\<lparr>grid := tg1\<rparr>))
                 \<lparr>hasActedThisTurn := False\<rparr>)
              ti (entry\<lparr>le_result := LOG_HIT\<rparr>))
        | Some si \<Rightarrow> do {
            let hitShip = ships target ! si;
            sunk \<leftarrow> everyHit tg1 (positions hitShip);
            if sunk then do {
              tg2 \<leftarrow> markAll tg1 (positions hitShip) SUNK;
              sg2 \<leftarrow> markAll sg1 (positions hitShip) SUNK;
              Some (finishClassic
                ((commitShot gameState ai key sg2 ti
                    (\<lambda>t. t\<lparr>grid := tg2,
                            ships := (ships target)[si := hitShip\<lparr>isSunk := True\<rparr>]\<rparr>))
                   \<lparr>hasActedThisTurn := False\<rparr>)
                ti (entry\<lparr>le_result := LOG_SUNK_SHIP,
                          le_hitShipName := Some (sname hitShip),
                          le_sunkShipName := Some (sname hitShip)\<rparr>))
            } else
              Some (finishClassic
                ((commitShot gameState ai key sg1 ti (\<lambda>t. t\<lparr>grid := tg1\<rparr>))
                   \<lparr>hasActedThisTurn := False\<rparr>)
                ti (entry\<lparr>le_result := LOG_HIT,
                          le_hitShipName := Some (sname hitShip)\<rparr>))
          }
      })"

definition classicMiss ::
  "GameState \<Rightarrow> nat \<Rightarrow> string \<Rightarrow> Grid \<Rightarrow> nat \<Rightarrow> GameLogEntry \<Rightarrow> int \<Rightarrow> int
     \<Rightarrow> GameState option" where
  "classicMiss gameState ai key sg ti entry x y =
     (let target = players gameState ! ti
      in do {
        sg1 \<leftarrow> setCell sg x y MISS;
        tg1 \<leftarrow> setCell (grid target) x y MISS;
        Some (finishClassic
          ((commitShot gameState ai key sg1 ti (\<lambda>t. t\<lparr>grid := tg1\<rparr>))
             \<lparr>hasActedThisTurn := True\<rparr>)
          ti (entry\<lparr>le_result := LOG_MISS\<rparr>))
      })"

definition processShotClassic ::
  "GameState \<Rightarrow> nat \<Rightarrow> string option \<Rightarrow> int \<Rightarrow> int \<Rightarrow> GameState option" where
  "processShotClassic gameState ai targetPlayerId x y =
     (let attacker = players gameState ! ai;
          key = shotKey targetPlayerId;
          base = baseLogEntry gameState attacker x y
      in do {
        ti \<leftarrow> findIndex (\<lambda>p. Some (pid p) = targetPlayerId) (players gameState);
        let target = players gameState ! ti;
        let entry = base\<lparr>le_targetId := targetPlayerId,
                         le_targetName := Some (pname target)\<rparr>;
        sg \<leftarrow> shotsGridFor gameState attacker key;
        current \<leftarrow> cellAt sg x y;
        if current \<noteq> Some EMPTY then Some gameState
        else do {
          targetCell \<leftarrow> cellAt (grid target) x y;
          if targetCell = Some SHIP \<or> targetCell = Some HIT \<or> targetCell = Some SUNK
          then classicHit gameState ai key sg ti entry x y
          else classicMiss gameState ai key sg ti entry x y
        }
      })"

text \<open>
  \<open>processShot\<close>. The deep copy \<open>JSON.parse(JSON.stringify(gameState))\<close> is the identity on
  these values. Without a player whose id is \<open>currentPlayerId\<close> the source throws on
  \<open>attacker.id\<close>.
\<close>

definition processShot :: "GameState \<Rightarrow> string option \<Rightarrow> int \<Rightarrow> int \<Rightarrow> GameState option" where
  "processShot gameState targetPlayerId x y =
     (case findIndex (\<lambda>p. Some (pid p) = currentPlayerId gameState) (players gameState) of
        None \<Rightarrow> None
      | Some ai \<Rightarrow>
          if gameMode gameState = TACTICAL
          then processShotTactical gameState ai targetPlayerId x y
          else processShotClassic gameState ai targetPlayerId x y)"


section \<open>Predicates on states used by the properties of processShot\<close>

text \<open>The attacker (at index \<open>ai\<close>) has a confirmed result at \<open>(x, y)\<close> under the key.\<close>

definition shotRecorded :: "GameState \<Rightarrow> nat \<Rightarrow> string \<Rightarrow> int \<Rightarrow> int \<Rightarrow> bool" where
  "shotRecorded s ai key x y \<longleftrightarrow>
     (case shots (players s ! ai) key of
        None \<Rightarrow> False
      | Some g \<Rightarrow> cellAt g x y \<in> {Some (Some HIT), Some (Some MISS), Some (Some SUNK)})"

text \<open>What no shot changes: the ids of the players, whose turn it is, the mode, the size.\<close>

definition sameGame :: "GameState \<Rightarrow> GameState \<Rightarrow> bool" where
  "sameGame s s' \<longleftrightarrow>
     map pid (players s') = map pid (players s) \<and> currentPlayerId s' = currentPlayerId s
       \<and> gameMode s' = gameMode s \<and> gridDimensions s' = gridDimensions s"

text \<open>The cell at a position reads as a given state.\<close>

definition readsAs :: "Grid \<Rightarrow> coord \<Rightarrow> CellState \<Rightarrow> bool" where
  "readsAs g c v \<longleftrightarrow> cellAt g (fst c) (snd c) = Some (Some v)"

text \<open>A shot grid (if allocated) holds a confirmed result at a position.\<close>

definition recorded :: "Grid option \<Rightarrow> coord \<Rightarrow> bool" where
  "recorded og c \<longleftrightarrow>
     (case og of None \<Rightarrow> False
      | Some g \<Rightarrow> readsAs g c HIT \<or> readsAs g c MISS \<or> readsAs g c SUNK)"

text \<open>No cell belongs to two ships, or twice to one.\<close>

definition noOverlap :: "Ship list \<Rightarrow> bool" where
  "noOverlap shs \<longleftrightarrow> distinct (concat (map positions shs))"

text \<open>
  The state of one fleet between shots, relative to the shots \<open>R\<close> the attacker has
  recorded against it: the cells of a sunk ship read \<open>SUNK\<close>, those of any other ship
  \<open>SHIP\<close> or \<open>HIT\<close>, and a ship cell that reads \<open>HIT\<close> or \<open>SUNK\<close> has been recorded.
\<close>

definition fleetInv :: "Grid \<Rightarrow> Ship list \<Rightarrow> (coord \<Rightarrow> bool) \<Rightarrow> bool" where
  "fleetInv g shs R \<longleftrightarrow>
     noOverlap shs \<and>
     (\<forall>sh\<in>set shs. \<forall>c\<in>set (positions sh).
        (if isSunk sh then readsAs g c SUNK else readsAs g c SHIP \<or> readsAs g c HIT)
        \<and> (readsAs g c HIT \<or> readsAs g c SUNK \<longrightarrow> R c))"

definition shotInv :: "GameState \<Rightarrow> nat \<Rightarrow> bool" where
  "shotInv s ai \<longleftrightarrow>
     (\<forall>j<length (players s).
        fleetInv (grid (players s ! j)) (ships (players s ! j))
          (recorded (shots (players s ! ai) (pid (players s ! j)))))"


text \<open>Observations of a state, by player index.\<close>

definition cooldownOf :: "nat \<Rightarrow> ShipType \<Rightarrow> GameState \<Rightarrow> int option" where
  "cooldownOf i k s = skillCooldowns (players s ! i) k"

definition gridCell :: "nat \<Rightarrow> int \<Rightarrow> int \<Rightarrow> GameState \<Rightarrow> CellState option option" where
  "gridCell i x y s = cellAt (grid (players s ! i)) x y"

definition shotCell :: "nat \<Rightarrow> string \<Rightarrow> int \<Rightarrow> int \<Rightarrow> GameState \<Rightarrow> CellState option option" where
  "shotCell i key x y s =
     (case shots (players s ! i) key of None \<Rightarrow> None | Some g \<Rightarrow> cellAt g x y)"


definition shipPositions :: "nat \<Rightarrow> nat \<Rightarrow> GameState \<Rightarrow> coord list" where
  "shipPositions i k s = positions (ships (players s ! i) ! k)"

section \<open>Ship placement (canPlaceShip, placeShip, findRandomValidPlacement)\<close>

text \<open>The cells of a ship of length \<open>n\<close> that starts at \<open>(x, y)\<close>, in the order of the loop.\<close>

definition footprint :: "int \<Rightarrow> int \<Rightarrow> int \<Rightarrow> bool \<Rightarrow> coord list" where
  "footprint n x y isHorizontal =
     map (\<lambda>i. (x + (if isHorizontal then int i else 0), y + (if isHorizontal then 0 else int i)))
       [0..<nat n]"

text \<open>
  The second loop of \<open>canPlaceShip\<close>: the bounds are tested before the grid is read, and
  the first cell that fails ends the loop.
\<close>

fun allFree :: "Grid \<Rightarrow> GridDimensions \<Rightarrow> coord list \<Rightarrow> bool option" where
  "allFree g d [] = Some True"
| "allFree g d (p # ps) =
     (if fst p < 0 \<or> cols d \<le> fst p \<or> snd p < 0 \<or> rows d \<le> snd p then Some False
      else case cellAt g (fst p) (snd p) of
             None \<Rightarrow> None
           | Some c \<Rightarrow> if c \<noteq> Some EMPTY then Some False else allFree g d ps)"

definition canPlaceShip :: "Grid \<Rightarrow> int \<Rightarrow> int \<Rightarrow> int \<Rightarrow> bool \<Rightarrow> GridDimensions \<Rightarrow> bool option" where
  "canPlaceShip g n x y isHorizontal d = allFree g d (footprint n x y isHorizontal)"

definition placeShip :: "Grid \<Rightarrow> Ship \<Rightarrow> int \<Rightarrow> int \<Rightarrow> bool \<Rightarrow> (Grid \<times> Ship) option" where
  "placeShip g ship x y isHorizontal =
     (let fp = footprint (slength ship) x y isHorizontal
      in map_option (\<lambda>g'. (g', ship\<lparr>positions := fp\<rparr>)) (markAll g fp SHIP))"

text \<open>
  A guarded write \<open>if (grid[y] && grid[y][x] !== undefined) grid[y][x] = EMPTY\<close>, for every
  position; also the form \<open>if (grid?.[y]?.[x]) grid[y][x] = EMPTY\<close>, every cell state being a
  non-empty string.
\<close>

definition clearDefined :: "Grid \<Rightarrow> coord list \<Rightarrow> Grid" where
  "clearDefined g ps =
     foldl (\<lambda>g' p. case setCell g' (fst p) (snd p) EMPTY of None \<Rightarrow> g' | Some g'' \<Rightarrow> g'') g ps"

text \<open>
  \<open>Math.random\<close> is a parameter: \<open>rnd i\<close> is the triple \<open>(isHorizontal, x, y)\<close> drawn in
  attempt \<open>i\<close>. The search returns the first of 100 attempts that can be placed.
\<close>

fun firstPlacement ::
  "Grid \<Rightarrow> int \<Rightarrow> GridDimensions \<Rightarrow> (bool \<times> int \<times> int) list \<Rightarrow> (int \<times> int \<times> bool) option option" where
  "firstPlacement g n d [] = Some None"
| "firstPlacement g n d (c # cs) =
     (case canPlaceShip g n (fst (snd c)) (snd (snd c)) (fst c) d of
        None \<Rightarrow> None
      | Some True \<Rightarrow> Some (Some (fst (snd c), snd (snd c), fst c))
      | Some False \<Rightarrow> firstPlacement g n d cs)"

text \<open>
  \<open>findRandomValidPlacement\<close>; the ship is \<open>None\<close> when the caller's \<open>find\<close> found none, and
  the source then throws on \<open>ship.positions\<close>. The outer \<open>None\<close> is a throw, \<open>Some None\<close>
  the result \<open>null\<close>.
\<close>

definition findRandomValidPlacement ::
  "(nat \<Rightarrow> bool \<times> int \<times> int) \<Rightarrow> Player \<Rightarrow> Ship option \<Rightarrow> GridDimensions
     \<Rightarrow> (int \<times> int \<times> bool) option option" where
  "findRandomValidPlacement rnd player ship d =
     (if grid player = [] \<or> hd (grid player) = [] then Some None
      else case ship of
             None \<Rightarrow> None
           | Some sh \<Rightarrow>
               firstPlacement (clearDefined (grid player) (positions sh)) (slength sh) d
                 (map rnd [0..<100]))"

section \<open>Skill resolution (handleUseSkill)\<close>

text \<open>
  The payload \<open>options\<close>: \<open>{x, y}\<close>, \<open>{x, y, isHorizontal}\<close> or \<open>{targetShipType}\<close>; a field
  that is absent is \<open>None\<close>.
\<close>

record SkillOptions =
  opt_x :: "int option"
  opt_y :: "int option"
  opt_isHorizontal :: "bool option"
  opt_targetShipType :: "ShipType option"

text \<open>
  The coordinates a skill reads from the payload. A payload without them gives \<open>NaN\<close>
  arithmetic in the source, which is not modelled: the skill ends with \<open>None\<close>.
\<close>

definition coordsOf :: "SkillOptions \<Rightarrow> coord option" where
  "coordsOf opts =
     (case (opt_x opts, opt_y opts) of (Some x, Some y) \<Rightarrow> Some (x, y) | _ \<Rightarrow> None)"

definition horizontalOf :: "SkillOptions \<Rightarrow> bool" where
  "horizontalOf opts = (case opt_isHorizontal opts of Some b \<Rightarrow> b | None \<Rightarrow> False)"

fun shipTypeName :: "ShipType \<Rightarrow> string" where
  "shipTypeName Mothership = ''Mothership''"
| "shipTypeName Radarship = ''Radarship''"
| "shipTypeName Repairship = ''Repairship''"
| "shipTypeName Commandship = ''Commandship''"
| "shipTypeName Decoyship = ''Decoyship''"
| "shipTypeName Jamship = ''Jamship''"
| "shipTypeName (Plain n) = n"

text \<open>
  What the \<open>switch\<close> leaves behind: \<open>actionTaken = false\<close> with the state as it then is, or
  the state and the log message of the skill.
\<close>

datatype SkillOutcome = Rejected GameState | Applied GameState string

definition setPlayer :: "GameState \<Rightarrow> nat \<Rightarrow> Player \<Rightarrow> GameState" where
  "setPlayer s i p = s\<lparr>players := (players s)[i := p]\<rparr>"

text \<open>
  For every player whose id is not the attacker's, the markers of its shot grid against
  the attacker are cleared at the given cells (where the grid has them).
\<close>

definition hideFromOpponents :: "string \<Rightarrow> coord list \<Rightarrow> Player list \<Rightarrow> Player list" where
  "hideFromOpponents aid ps pls =
     map (\<lambda>p. if pid p \<noteq> aid
               then (case shots p aid of
                       None \<Rightarrow> p
                     | Some g \<Rightarrow> p\<lparr>shots := (shots p)(aid \<mapsto> clearDefined g ps)\<rparr>)
               else p) pls"

definition escapeMessage :: "Player \<Rightarrow> string" where
  "escapeMessage a = pname a @ '' used Escape! The Mothership has been repaired and relocated!''"

definition mothershipAI ::
  "(nat \<Rightarrow> bool \<times> int \<times> int) \<Rightarrow> GameState \<Rightarrow> nat \<Rightarrow> GridDimensions \<Rightarrow> SkillOutcome option" where
  "mothershipAI rnd s ai d =
     (let attacker = players s ! ai;
          mi = findIndex (\<lambda>sh. stype sh = Mothership) (ships attacker);
          mothership = map_option (\<lambda>i. ships attacker ! i) mi
      in do {
        placement \<leftarrow> findRandomValidPlacement rnd attacker mothership d;
        case placement of
          None \<Rightarrow> Some (Rejected s)
        | Some (x, y, isHorizontal) \<Rightarrow> do {
            i \<leftarrow> mi;
            let m = ships attacker ! i;
            g0 \<leftarrow> markAll (grid attacker) (positions m) EMPTY;
            (newGrid, newShip) \<leftarrow> placeShip g0 m x y isHorizontal;
            let pls = hideFromOpponents (pid attacker) (positions m) (players s);
            let a' = (pls ! ai)\<lparr>ships := (ships attacker)[i := newShip\<lparr>isDamaged := False\<rparr>],
                                grid := newGrid,
                                skillUses := (skillUses attacker)(Mothership \<mapsto> 0)\<rparr>;
            Some (Applied (s\<lparr>players := pls[ai := a']\<rparr>) (escapeMessage attacker))
          }
      })"

text \<open>
  Restoring the footprint recorded when the skill was armed:
  \<open>originalPositions.forEach(pos => { attacker.grid[pos.y][pos.x] = pos.state })\<close>.
\<close>

fun restoreCells :: "Grid \<Rightarrow> (int \<times> int \<times> CellState) list \<Rightarrow> Grid option" where
  "restoreCells g [] = Some g"
| "restoreCells g (p # ps) =
     (case setCell g (fst p) (fst (snd p)) (snd (snd p)) of
        None \<Rightarrow> None
      | Some g' \<Rightarrow> restoreCells g' ps)"

definition mothershipHuman ::
  "GameState \<Rightarrow> nat \<Rightarrow> GridDimensions \<Rightarrow> SkillOptions \<Rightarrow> SkillOutcome option" where
  "mothershipHuman s ai d opts =
     (let attacker = players s ! ai
      in do {
        (x, y) \<leftarrow> coordsOf opts;
        let isHorizontal = horizontalOf opts;
        act \<leftarrow> activeAction s;
        shipFromAction \<leftarrow> aa_shipToMove act;
        ok \<leftarrow> canPlaceShip (grid attacker) (slength shipFromAction) x y isHorizontal d;
        i \<leftarrow> findIndex (\<lambda>sh. stype sh = Mothership) (ships attacker);
        let m = ships attacker ! i;
        if ok then do {
          pls \<leftarrow> (case aa_originalPositions act of
                    Some ops \<Rightarrow>
                      Some (hideFromOpponents (pid attacker) (map (\<lambda>p. (fst p, fst (snd p))) ops)
                              (players s))
                  | None \<Rightarrow>
                      if list_ex (\<lambda>p. pid p \<noteq> pid attacker) (players s) then None
                      else Some (players s));
          (newGrid, newShip) \<leftarrow> placeShip (grid attacker) (m\<lparr>isDamaged := False\<rparr>) x y isHorizontal;
          let a' = (pls ! ai)\<lparr>ships := (ships attacker)[i := newShip],
                              grid := newGrid,
                              skillUses := (skillUses attacker)(Mothership \<mapsto> 0)\<rparr>;
          Some (Applied (s\<lparr>players := pls[ai := a']\<rparr>) (escapeMessage attacker))
        } else do {
          ops \<leftarrow> aa_originalPositions act;
          g' \<leftarrow> restoreCells (grid attacker) ops;
          let a' = attacker\<lparr>ships := (ships attacker)
                               [i := m\<lparr>positions := map (\<lambda>p. (fst p, fst (snd p))) ops\<rparr>],
                             grid := g'\<rparr>;
          Some (Rejected (setPlayer s ai a'))
        }
      })"

text \<open>
  The radar scan of the 2 x 2 block: rows outside, columns inside. A cell is looked at when
  \<open>checkX < cols && checkY < rows\<close>; only then are the attacker's shot grid and the
  opponent (the first player with another id) read.
\<close>

fun scanCells ::
  "Grid option \<Rightarrow> Player option \<Rightarrow> GridDimensions \<Rightarrow> coord list
     \<Rightarrow> (int \<times> int \<times> CellState) list option" where
  "scanCells sg opp d [] = Some []"
| "scanCells sg opp d (p # ps) =
     (if fst p < cols d \<and> snd p < rows d
      then do {
        g \<leftarrow> sg;
        c \<leftarrow> cellAt g (fst p) (snd p);
        found \<leftarrow> (if c = Some EMPTY
                  then do {
                    opn \<leftarrow> opp;
                    oc \<leftarrow> cellAt (grid opn) (fst p) (snd p);
                    Some [(fst p, snd p,
                           if oc = Some SHIP \<or> oc = Some DECOY then RADAR_CONTACT else MISS)]
                  }
                  else Some []);
        rest \<leftarrow> scanCells sg opp d ps;
        Some (found @ rest)
      }
      else scanCells sg opp d ps)"

definition radarship ::
  "GameState \<Rightarrow> nat \<Rightarrow> GridDimensions \<Rightarrow> SkillOptions \<Rightarrow> SkillOutcome option" where
  "radarship s ai d opts =
     (let attacker = players s ! ai;
          opponent = find (\<lambda>p. pid p \<noteq> pid attacker) (players s)
      in do {
        (x, y) \<leftarrow> coordsOf opts;
        scanResults \<leftarrow> scanCells
          (case opponent of None \<Rightarrow> None | Some opn \<Rightarrow> shots attacker (pid opn)) opponent d
          [(x, y), (x + 1, y), (x, y + 1), (x + 1, y + 1)];
        let a' = attacker\<lparr>skillCooldowns := (skillCooldowns attacker)(Radarship \<mapsto> 3)\<rparr>;
        Some (Applied
          ((setPlayer s ai a')
             \<lparr>radarScanResult := Some \<lparr>rs_playerId = pid attacker, rs_results = scanResults\<rparr>\<rparr>)
          ''Radar Scan used. Cooldown set to 3 turns.'')
      })"

text \<open>The cells of the 3 x 3 block around \<open>(x, y)\<close> that are inside the dimensions.\<close>

definition jamBlock :: "GridDimensions \<Rightarrow> int \<Rightarrow> int \<Rightarrow> coord list" where
  "jamBlock d x y =
     filter (\<lambda>c. 0 \<le> fst c \<and> fst c < cols d \<and> 0 \<le> snd c \<and> snd c < rows d)
       (concat (map (\<lambda>i. map (\<lambda>j. (x + j, y + i)) [-1, 0, 1]) [-1, 0, 1]))"

definition jamship ::
  "GameState \<Rightarrow> nat \<Rightarrow> GridDimensions \<Rightarrow> SkillOptions \<Rightarrow> SkillOutcome option" where
  "jamship s ai d opts =
     (let attacker = players s ! ai
      in do {
        (x, y) \<leftarrow> coordsOf opts;
        oi \<leftarrow> findIndex (\<lambda>p. pid p \<noteq> pid attacker) (players s);
        let opponent = players s ! oi;
        let jammedCoords = jamBlock d x y;
        let s1 = (setPlayer s oi (opponent\<lparr>jammedPositions := Some jammedCoords,
                                           jamTurnsRemaining := Some 1\<rparr>))
                   \<lparr>jammedArea := Some \<lparr>ja_playerId = pid opponent, ja_coords = jammedCoords\<rparr>\<rparr>;
        let a' = (players s1 ! ai)\<lparr>skillCooldowns := (skillCooldowns attacker)(Jamship \<mapsto> 4)\<rparr>;
        Some (Applied (setPlayer s1 ai a')
                (pname attacker @ '' used Jam. Cooldown set to 4 turns.''))
      })"

text \<open>
  \<open>hitLog?.[attacker.id]?.[`${x},${y}`] ?? 999\<close>: the turn in which the cell was damaged.
\<close>

definition damageTurn :: "GameState \<Rightarrow> string \<Rightarrow> coord \<Rightarrow> int" where
  "damageTurn s aid c =
     (case hitLog s of
        None \<Rightarrow> 999
      | Some hl \<Rightarrow> (case hl aid of
                     None \<Rightarrow> 999
                   | Some m \<Rightarrow> (case m c of None \<Rightarrow> 999 | Some t \<Rightarrow> t)))"

text \<open>\<open>positions.some(p => grid[p.y][p.x] === HIT)\<close>, stopping at the first hit.\<close>

fun someHit :: "Grid \<Rightarrow> coord list \<Rightarrow> bool option" where
  "someHit g [] = Some False"
| "someHit g (p # ps) =
     (case cellAt g (fst p) (snd p) of
        None \<Rightarrow> None
      | Some c \<Rightarrow> if c = Some HIT then Some True else someHit g ps)"

text \<open>
  \<open>players.forEach(p => { p.shots[attacker.id] && (p.shots[attacker.id][y][x] = EMPTY) })\<close>,
  over all players, the attacker included.
\<close>

fun unmarkAll :: "string \<Rightarrow> int \<Rightarrow> int \<Rightarrow> Player list \<Rightarrow> Player list option" where
  "unmarkAll aid x y [] = Some []"
| "unmarkAll aid x y (p # ps) = do {
     p' \<leftarrow> (case shots p aid of
              None \<Rightarrow> Some p
            | Some g \<Rightarrow> map_option (\<lambda>g'. p\<lparr>shots := (shots p)(aid \<mapsto> g')\<rparr>) (setCell g x y EMPTY));
     ps' \<leftarrow> unmarkAll aid x y ps;
     Some (p' # ps')
   }"

definition repairship ::
  "GameState \<Rightarrow> nat \<Rightarrow> SkillOptions \<Rightarrow> SkillOutcome option" where
  "repairship s ai opts =
     (let attacker = players s ! ai
      in do {
        (x, y) \<leftarrow> coordsOf opts;
        let ri = findIndex (\<lambda>sh. (x, y) \<in> set (positions sh)) (ships attacker);
        let repairedShip = map_option (\<lambda>i. ships attacker ! i) ri;
        if (case repairedShip of None \<Rightarrow> False | Some sh \<Rightarrow> isSunk sh \<or> hasBeenRepaired sh)
        then Some (Rejected s)
        else do {
          c \<leftarrow> cellAt (grid attacker) x y;
          if c \<noteq> Some HIT \<or> turn s \<le> damageTurn s (pid attacker) (x, y)
          then Some (Rejected s)
          else do {
            g1 \<leftarrow> setCell (grid attacker) x y SHIP;
            pls \<leftarrow> unmarkAll (pid attacker) x y ((players s)[ai := attacker\<lparr>grid := g1\<rparr>]);
            i \<leftarrow> ri;
            let sh = ships attacker ! i;
            isStillDamaged \<leftarrow> someHit g1 (positions sh);
            let a' = (pls ! ai)
                       \<lparr>skillCooldowns := (skillCooldowns attacker)(Repairship \<mapsto> 3),
                        ships := (ships attacker)
                          [i := sh\<lparr>hasBeenRepaired := True, isDamaged := isStillDamaged\<rparr>]\<rparr>;
            Some (Applied (s\<lparr>players := pls[ai := a']\<rparr>)
                    (pname attacker @ '' repaired their '' @ sname sh @ ''. Cooldown: 3 turns.''
                       @ (if isStillDamaged then [] else '' It's fully repaired and hidden!'')))
          }
        }
      })"

text \<open>
  \<open>skillUses.Decoyship--\<close> on a missing entry stores \<open>NaN\<close>, which is not modelled: the
  skill then ends with \<open>None\<close>.
\<close>

definition decoyship ::
  "GameState \<Rightarrow> nat \<Rightarrow> SkillOptions \<Rightarrow> SkillOutcome option" where
  "decoyship s ai opts =
     (let attacker = players s ! ai
      in do {
        (x, y) \<leftarrow> coordsOf opts;
        c \<leftarrow> cellAt (grid attacker) x y;
        if c = Some EMPTY then do {
          g1 \<leftarrow> setCell (grid attacker) x y DECOY;
          uses \<leftarrow> skillUses attacker Decoyship;
          let a' = attacker\<lparr>grid := g1,
                             decoyPositions := decoyPositions attacker @ [(x, y)],
                             skillUses := (skillUses attacker)(Decoyship \<mapsto> uses - 1)\<rparr>;
          Some (Applied (setPlayer s ai a') (pname attacker @ '' deployed a decoy beacon.''))
        }
        else Some (Rejected s)
      })"

text \<open>
  The AI variant reads \<open>game!.gridDimensions\<close> only after the ship has passed the checks.
\<close>

definition commandshipAI ::
  "(nat \<Rightarrow> bool \<times> int \<times> int) \<Rightarrow> GameState \<Rightarrow> nat \<Rightarrow> GameState option \<Rightarrow> SkillOptions
     \<Rightarrow> SkillOutcome option" where
  "commandshipAI rnd s ai game opts =
     (let attacker = players s ! ai
      in case find (\<lambda>sh. Some (stype sh) = opt_targetShipType opts) (ships attacker) of
           None \<Rightarrow> Some (Rejected s)
         | Some shipToMove \<Rightarrow>
             if isDamaged shipToMove \<or> isSunk shipToMove \<or> hasBeenRelocated shipToMove
             then Some (Rejected s)
             else do {
               g \<leftarrow> game;
               placement \<leftarrow> findRandomValidPlacement rnd attacker (Some shipToMove)
                              (gridDimensions g);
               case placement of
                 None \<Rightarrow> Some (Rejected s)
               | Some (x, y, isHorizontal) \<Rightarrow> do {
                   g0 \<leftarrow> markAll (grid attacker) (positions shipToMove) EMPTY;
                   (newGrid, newShip) \<leftarrow> placeShip g0 shipToMove x y isHorizontal;
                   i \<leftarrow> findIndex (\<lambda>sh. sname sh = sname newShip) (ships attacker);
                   let a' = attacker
                         \<lparr>ships := (ships attacker)[i := newShip\<lparr>hasBeenRelocated := True\<rparr>],
                          grid := newGrid,
                          skillCooldowns := (skillCooldowns attacker)(Commandship \<mapsto> 4)\<rparr>;
                   Some (Applied (setPlayer s ai a')
                           (pname attacker @ '' relocated their '' @ sname shipToMove @ ''.''))
                 }
             })"

definition commandshipHuman ::
  "GameState \<Rightarrow> nat \<Rightarrow> GridDimensions \<Rightarrow> SkillOptions \<Rightarrow> SkillOutcome option" where
  "commandshipHuman s ai d opts =
     (let attacker = players s ! ai
      in do {
        (x, y) \<leftarrow> coordsOf opts;
        let isHorizontal = horizontalOf opts;
        act \<leftarrow> activeAction s;
        shipFromAction \<leftarrow> aa_shipToMove act;
        ok \<leftarrow> canPlaceShip (grid attacker) (slength shipFromAction) x y isHorizontal d;
        i \<leftarrow> findIndex (\<lambda>sh. sname sh = sname shipFromAction) (ships attacker);
        if ok then do {
          (newGrid, newShip) \<leftarrow> placeShip (grid attacker) (ships attacker ! i) x y isHorizontal;
          let a' = attacker
                \<lparr>ships := (ships attacker)[i := newShip\<lparr>hasBeenRelocated := True\<rparr>],
                 grid := newGrid,
                 skillCooldowns := (skillCooldowns attacker)(Commandship \<mapsto> 4)\<rparr>;
          Some (Applied (setPlayer s ai a')
                  (pname attacker @ '' relocated their '' @ sname shipFromAction @ ''.''))
        } else do {
          ops \<leftarrow> aa_originalPositions act;
          g' \<leftarrow> restoreCells (grid attacker) ops;
          let a' = attacker\<lparr>ships := (ships attacker)
                               [i := (ships attacker ! i)
                                  \<lparr>positions := map (\<lambda>p. (fst p, fst (snd p))) ops\<rparr>],
                             grid := g'\<rparr>;
          Some (Rejected (setPlayer s ai a'))
        }
      })"

text \<open>
  The \<open>switch\<close> over the skill type. The dimensions are those of the component's own state
  \<open>game\<close> (\<open>game!.gridDimensions\<close>), which is read only by the skills that need them; a
  type that is none of the six matches no case.
\<close>

definition skillLogic ::
  "(nat \<Rightarrow> bool \<times> int \<times> int) \<Rightarrow> GameState option \<Rightarrow> ShipType \<Rightarrow> SkillOptions \<Rightarrow> bool
     \<Rightarrow> GameState \<Rightarrow> nat \<Rightarrow> SkillOutcome option" where
  "skillLogic rnd game skillType opts byAI s ai =
     (case skillType of
        Mothership \<Rightarrow>
          do { g \<leftarrow> game;
               if byAI then mothershipAI rnd s ai (gridDimensions g)
               else mothershipHuman s ai (gridDimensions g) opts }
      | Radarship \<Rightarrow> do { g \<leftarrow> game; radarship s ai (gridDimensions g) opts }
      | Jamship \<Rightarrow> do { g \<leftarrow> game; jamship s ai (gridDimensions g) opts }
      | Repairship \<Rightarrow> repairship s ai opts
      | Decoyship \<Rightarrow> decoyship s ai opts
      | Commandship \<Rightarrow>
          if byAI then commandshipAI rnd s ai game opts
          else do { g \<leftarrow> game; commandshipHuman s ai (gridDimensions g) opts }
      | Plain n \<Rightarrow> Some (Applied s (n @ '' used'')))"

text \<open>
  \<open>handleUseSkill\<close>. The result is the pair \<open>(success, newState)\<close>; \<open>newState\<close> is \<open>null\<close>
  (\<open>None\<close>) only when there is neither an override nor a state of the component. The calls
  of \<open>setGame\<close> and \<open>showToast\<close> act on the component, not on the result, and are left out.
\<close>

definition handleUseSkill ::
  "(nat \<Rightarrow> bool \<times> int \<times> int) \<Rightarrow> GameState option \<Rightarrow> ShipType \<Rightarrow> SkillOptions \<Rightarrow> bool
     \<Rightarrow> GameState option \<Rightarrow> (bool \<times> GameState option) option" where
  "handleUseSkill rnd game skillType opts byAI gameStateOverride =
     (case (case gameStateOverride of Some g \<Rightarrow> Some g | None \<Rightarrow> game) of
        None \<Rightarrow> Some (False, None)
      | Some s \<Rightarrow> do {
          ai \<leftarrow> findIndex (\<lambda>p. Some (pid p) = currentPlayerId s) (players s);
          let attacker = players s ! ai;
          let logEntry = \<lparr>le_turn = turn s, le_playerId = pid attacker,
                le_playerName = pname attacker, le_targetId = None, le_targetName = None,
                le_coords = None, le_result = LOG_SKILL_USED, le_sunkShipName = None,
                le_hitShipName = None, le_message = Some (shipTypeName skillType @ '' used'')\<rparr>;
          outcome \<leftarrow> skillLogic rnd game skillType opts byAI s ai;
          case outcome of
            Rejected s1 \<Rightarrow> Some (False, Some (s1\<lparr>activeAction := None\<rparr>))
          | Applied s1 msg \<Rightarrow>
              Some (True, Some (s1\<lparr>log := logEntry\<lparr>le_message := Some msg\<rparr> # log s1,
                                   hasActedThisTurn := True,
                                   activeAction := None\<rparr>))
        })"

section \<open>The action hub's gate (handleActionSelect in GamePhase.tsx)\<close>

datatype ActionChoice = ChooseAttack | ChooseSkill ShipType

text \<open>What the handler asks of the application: nothing, a new in-progress action, or the
  arming of the Mothership's escape.\<close>

datatype UIEffect = NoEffect | SetActiveAction "ActiveAction option" | ActivateMothershipEscape

definition handleActionSelect :: "GameState \<Rightarrow> string \<Rightarrow> Player \<Rightarrow> ActionChoice \<Rightarrow> UIEffect" where
  "handleActionSelect game playerId localPlayer actionType =
     (let canTakeAction = (currentPlayerId game = Some playerId \<and> \<not> hasActedThisTurn game)
      in if \<not> canTakeAction then NoEffect
         else if (case activeAction game of
                    None \<Rightarrow> False
                  | Some act \<Rightarrow>
                      (case actionType of
                         ChooseSkill t \<Rightarrow> aa_shipType act = Some t
                       | ChooseAttack \<Rightarrow> aa_type act = ACT_ATTACK))
         then SetActiveAction None
         else case actionType of
                ChooseAttack \<Rightarrow>
                  SetActiveAction (Some \<lparr>aa_playerId = playerId, aa_type = ACT_ATTACK,
                    aa_shipType = None, aa_stage = None, aa_shipToMove = None,
                    aa_isHorizontal = None, aa_originalPositions = None\<rparr>)
              | ChooseSkill t \<Rightarrow>
                  (case find (\<lambda>sh. stype sh = t) (ships localPlayer) of
                     None \<Rightarrow> NoEffect
                   | Some ship \<Rightarrow>
                       if isSunk ship then NoEffect
                       else let cooldown = (case skillCooldowns localPlayer t of
                                              None \<Rightarrow> 0 | Some c \<Rightarrow> c);
                                uses = (case skillUses localPlayer t of
                                          None \<Rightarrow> 1 | Some u \<Rightarrow> u)
                            in if 0 < cooldown \<or> uses \<le> 0 then NoEffect
                               else if t = Mothership then ActivateMothershipEscape
                               else SetActiveAction (Some \<lparr>aa_playerId = playerId,
                                      aa_type = ACT_SKILL, aa_shipType = Some t,
                                      aa_stage = (if t = Commandship then Some SELECT_SHIP
                                                  else if t = Decoyship then Some PLACE_DECOY
                                                  else None),
                                      aa_shipToMove = None, aa_isHorizontal = None,
                                      aa_originalPositions = None\<rparr>)))"

section \<open>The AI's probability map (geminiService.ts)\<close>

text \<open>\<open>shotsGrid[y]?.[x] ?? CellState.EMPTY\<close>.\<close>

definition cellOr :: "Grid \<Rightarrow> int \<Rightarrow> int \<Rightarrow> CellState" where
  "cellOr g x y = (case cellAt g x y of Some (Some c) \<Rightarrow> c | _ \<Rightarrow> EMPTY)"

text \<open>
  \<open>canShipBePlaced\<close>: the ship must end inside the grid in its own direction, and none of
  its cells may be a known miss.
\<close>

definition canShipBePlaced :: "Grid \<Rightarrow> int \<Rightarrow> int \<Rightarrow> int \<Rightarrow> bool \<Rightarrow> GridDimensions \<Rightarrow> bool" where
  "canShipBePlaced shotsGrid n x y isHorizontal d =
     (if isHorizontal
      then \<not> cols d < x + n \<and> list_all (\<lambda>i. cellOr shotsGrid (x + int i) y \<noteq> MISS) [0..<nat n]
      else \<not> rows d < y + n \<and> list_all (\<lambda>i. cellOr shotsGrid x (y + int i) \<noteq> MISS) [0..<nat n])"

text \<open>The map is a list of rows of numbers; \<open>probabilityMap[y][x]\<close> is \<open>m ! y ! x\<close>.\<close>

type_synonym ProbabilityMap = "int list list"

definition updateAt :: "ProbabilityMap \<Rightarrow> nat \<Rightarrow> nat \<Rightarrow> (int \<Rightarrow> int) \<Rightarrow> ProbabilityMap" where
  "updateAt m x y f = m[y := (m ! y)[x := f (m ! y ! x)]]"

text \<open>\<open>for (i = 0; i < ship.length; i++) probabilityMap[y][x + i]++\<close>, or down the column.\<close>

definition addFootprint :: "ProbabilityMap \<Rightarrow> nat \<Rightarrow> nat \<Rightarrow> nat \<Rightarrow> bool \<Rightarrow> ProbabilityMap" where
  "addFootprint m n x y isHorizontal =
     foldl (\<lambda>m' i. if isHorizontal then updateAt m' (x + i) y (\<lambda>v. v + 1)
                     else updateAt m' x (y + i) (\<lambda>v. v + 1)) m [0..<n]"

text \<open>All \<open>HIT\<close> cells of the shot grid inside the dimensions, row by row.\<close>

definition hitCellsOf :: "Grid \<Rightarrow> GridDimensions \<Rightarrow> (nat \<times> nat) list" where
  "hitCellsOf shotsGrid d =
     concat (map (\<lambda>y. map (\<lambda>x. (x, y))
                          (filter (\<lambda>x. cellOr shotsGrid (int x) (int y) = HIT) [0..<nat (cols d)]))
                 [0..<nat (rows d)])"

text \<open>
  One orientation of one ship at one cell: the placement counts when \<open>canShipBePlaced\<close>
  holds and the hits it covers (\<open>placementHits\<close>) are as many as the known hits inside
  its extent (\<open>relevantHits\<close>).
\<close>

definition tryPlacement ::
  "Grid \<Rightarrow> GridDimensions \<Rightarrow> (nat \<times> nat) list \<Rightarrow> ProbabilityMap \<Rightarrow> int \<Rightarrow> nat \<Rightarrow> nat \<Rightarrow> bool
     \<Rightarrow> ProbabilityMap" where
  "tryPlacement shotsGrid d hitCells m n x y isHorizontal =
     (if canShipBePlaced shotsGrid n (int x) (int y) isHorizontal d
      then (let placementHits =
                  filter (\<lambda>i. if isHorizontal
                               then cellOr shotsGrid (int x + int i) (int y) = HIT
                               else cellOr shotsGrid (int x) (int y + int i) = HIT) [0..<nat n];
                relevantHits =
                  filter (\<lambda>h. if isHorizontal
                               then snd h = y \<and> x \<le> fst h \<and> int (fst h) < int x + n
                               else fst h = x \<and> y \<le> snd h \<and> int (snd h) < int y + n) hitCells
            in if length placementHits = length relevantHits
               then addFootprint m (nat n) x y isHorizontal else m)
      else m)"

text \<open>The three nested loops over the ships that are not sunk, the rows and the columns.\<close>

definition accumulate ::
  "Grid \<Rightarrow> GridDimensions \<Rightarrow> (nat \<times> nat) list \<Rightarrow> ProbabilityMap \<Rightarrow> int list \<Rightarrow> ProbabilityMap" where
  "accumulate shotsGrid d hitCells m0 lengths =
     foldl (\<lambda>m1 n.
        foldl (\<lambda>m2 y.
           foldl (\<lambda>m3 x.
              tryPlacement shotsGrid d hitCells
                (tryPlacement shotsGrid d hitCells m3 n x y True) n x y False)
             m2 [0..<nat (cols d)])
          m1 [0..<nat (rows d)])
       m0 lengths"

text \<open>
  The boost: for every hit cell, each of its four neighbours that is inside the
  dimensions and still \<open>EMPTY\<close> in the shot grid is multiplied by 5.
\<close>

definition neighbours :: "nat \<times> nat \<Rightarrow> coord list" where
  "neighbours h =
     [(int (fst h), int (snd h) - 1), (int (fst h), int (snd h) + 1),
      (int (fst h) - 1, int (snd h)), (int (fst h) + 1, int (snd h))]"

definition boostCell :: "Grid \<Rightarrow> GridDimensions \<Rightarrow> ProbabilityMap \<Rightarrow> coord \<Rightarrow> ProbabilityMap" where
  "boostCell shotsGrid d m c =
     (if 0 \<le> fst c \<and> fst c < cols d \<and> 0 \<le> snd c \<and> snd c < rows d
         \<and> cellOr shotsGrid (fst c) (snd c) = EMPTY
      then updateAt m (nat (fst c)) (nat (snd c)) (\<lambda>v. v * 5) else m)"

definition boost ::
  "Grid \<Rightarrow> GridDimensions \<Rightarrow> (nat \<times> nat) list \<Rightarrow> ProbabilityMap \<Rightarrow> ProbabilityMap" where
  "boost shotsGrid d hitCells m =
     foldl (\<lambda>m1 h. foldl (boostCell shotsGrid d) m1 (neighbours h)) m hitCells"

text \<open>
  The map for a list of ship lengths. \<open>Array(rows)\<close> throws a RangeError for a negative
  number, as in \<open>createEmptyGrid\<close>.
\<close>

definition heatmap :: "int list \<Rightarrow> Grid \<Rightarrow> GridDimensions \<Rightarrow> ProbabilityMap option" where
  "heatmap lengths shotsGrid d =
     (if rows d < 0 \<or> (0 < rows d \<and> cols d < 0) then None
      else let m0 = replicate (nat (rows d)) (replicate (nat (cols d)) 0);
               hitCells = hitCellsOf shotsGrid d
           in Some (boost shotsGrid d hitCells (accumulate shotsGrid d hitCells m0 lengths)))"

text \<open>\<open>buildProbabilityMap\<close> reads the opponent's ships only for \<open>isSunk\<close> and \<open>length\<close>.\<close>

definition buildProbabilityMap :: "Player \<Rightarrow> Grid \<Rightarrow> GridDimensions \<Rightarrow> ProbabilityMap option" where
  "buildProbabilityMap opponent shotsGrid d =
     heatmap (map slength (filter (\<lambda>sh. \<not> isSunk sh) (ships opponent))) shotsGrid d"

section \<open>What the specification says of the probability map\<close>

text \<open>
  A candidate placement is a ship length, a start cell inside the dimensions and an
  orientation. Its footprint is fully in bounds when it ends inside the grid, and it
  passes through no miss when none of its cells reads \<open>MISS\<close> in the shot grid.
\<close>

definition aiFootprint :: "int \<Rightarrow> nat \<Rightarrow> nat \<Rightarrow> bool \<Rightarrow> (nat \<times> nat) list" where
  "aiFootprint n x y isHorizontal =
     map (\<lambda>i. if isHorizontal then (x + i, y) else (x, y + i)) [0..<nat n]"

definition inBounds :: "GridDimensions \<Rightarrow> int \<Rightarrow> nat \<Rightarrow> nat \<Rightarrow> bool \<Rightarrow> bool" where
  "inBounds d n x y isHorizontal \<longleftrightarrow>
     (\<forall>c\<in>set (aiFootprint n x y isHorizontal). int (fst c) < cols d \<and> int (snd c) < rows d)"

definition throughNoMiss :: "Grid \<Rightarrow> int \<Rightarrow> nat \<Rightarrow> nat \<Rightarrow> bool \<Rightarrow> bool" where
  "throughNoMiss shotsGrid n x y isHorizontal \<longleftrightarrow>
     (\<forall>c\<in>set (aiFootprint n x y isHorizontal).
        cellOr shotsGrid (int (fst c)) (int (snd c)) \<noteq> MISS)"

text \<open>The candidates, in the order of the loops.\<close>

definition candidates :: "GridDimensions \<Rightarrow> int list \<Rightarrow> (int \<times> nat \<times> nat \<times> bool) list" where
  "candidates d lengths =
     concat (map (\<lambda>n. concat (map (\<lambda>y. concat (map (\<lambda>x. [(n, x, y, True), (n, x, y, False)])
                                                       [0..<nat (cols d)]))
                                    [0..<nat (rows d)]))
                 lengths)"

text \<open>The raw count of a cell: the candidates that count and whose footprint holds it.\<close>

definition rawCount :: "Grid \<Rightarrow> GridDimensions \<Rightarrow> int list \<Rightarrow> nat \<Rightarrow> nat \<Rightarrow> nat" where
  "rawCount shotsGrid d lengths x y =
     length (filter (\<lambda>(n, x0, y0, h).
                inBounds d n x0 y0 h \<and> throughNoMiss shotsGrid n x0 y0 h
                  \<and> (x, y) \<in> set (aiFootprint n x0 y0 h))
             (candidates d lengths))"

text \<open>
  The number of hit cells a cell is adjacent to: the \<open>HIT\<close> cells of the shot grid (inside
  the dimensions) that have the cell as one of their four neighbours.
\<close>

definition adjacentHits :: "Grid \<Rightarrow> GridDimensions \<Rightarrow> nat \<Rightarrow> nat \<Rightarrow> nat" where
  "adjacentHits shotsGrid d x y =
     length (filter (\<lambda>h. (int x, int y) \<in> set (neighbours h)) (hitCellsOf shotsGrid d))"

text \<open>A map of \<open>r\<close> rows of \<open>c\<close> numbers each.\<close>

definition shaped :: "nat \<Rightarrow> nat \<Rightarrow> ProbabilityMap \<Rightarrow> bool" where
  "shaped r c m \<longleftrightarrow> length m = r \<and> (\<forall>row\<in>set m. length row = c)"

section \<open>The AI's tactical move (geminiService.ts, getAITacticalMove)\<close>

text \<open>
  The move returned: \<open>{action: "ATTACK", coords}\<close> or
  \<open>{action: "SKILL", shipType, coords?, targetShipType?}\<close>.
\<close>

datatype AIMove = Attack coord | UseSkill ShipType "coord option" "ShipType option"

text \<open>\<open>SHIPS_CONFIG_TACTICAL\<close> (constants.ts); \<open>getGameConfig\<close> pairs it with a 12 x 12 grid.\<close>

definition SHIPS_CONFIG_TACTICAL :: "ShipConfig list" where
  "SHIPS_CONFIG_TACTICAL =
     [\<lparr>cfg_name = ''Commandship'', cfg_type = Commandship, cfg_length = 5\<rparr>,
      \<lparr>cfg_name = ''Decoyship'', cfg_type = Decoyship, cfg_length = 4\<rparr>,
      \<lparr>cfg_name = ''Radarship'', cfg_type = Radarship, cfg_length = 3\<rparr>,
      \<lparr>cfg_name = ''Repairship'', cfg_type = Repairship, cfg_length = 3\<rparr>,
      \<lparr>cfg_name = ''Jamship'', cfg_type = Jamship, cfg_length = 3\<rparr>,
      \<lparr>cfg_name = ''Mothership'', cfg_type = Mothership, cfg_length = 2\<rparr>]"

text \<open>
  \<open>xs[Math.floor(Math.random() * xs.length)]\<close>: the random number is the parameter \<open>r\<close>,
  and every index of the list can be drawn; \<open>None\<close> is \<open>undefined\<close> (the list is empty).
\<close>

definition pick :: "nat \<Rightarrow> 'a list \<Rightarrow> 'a option" where
  "pick r xs = (if xs = [] then None else Some (xs ! (r mod length xs)))"

text \<open>\<open>p.skillCooldowns?.[t] ?? 0\<close> and \<open>p.skillUses?.[t] ?? 0\<close>.\<close>

definition cooldown :: "Player \<Rightarrow> ShipType \<Rightarrow> int" where
  "cooldown p t = (case skillCooldowns p t of None \<Rightarrow> 0 | Some n \<Rightarrow> n)"

definition uses :: "Player \<Rightarrow> ShipType \<Rightarrow> int" where
  "uses p t = (case skillUses p t of None \<Rightarrow> 0 | Some n \<Rightarrow> n)"

text \<open>
  \<open>findBestTargets\<close>: the cells of the map that are \<open>EMPTY\<close> or \<open>RADAR_CONTACT\<close> in the shot
  grid and carry the largest number, in the order of the loops. The loops run over the
  rows of the map and the cells of each row, so every read of the map is in range.
\<close>

definition bestStep ::
  "ProbabilityMap \<Rightarrow> Grid \<Rightarrow> nat \<Rightarrow> int \<times> (nat \<times> nat) list \<Rightarrow> nat \<Rightarrow> int \<times> (nat \<times> nat) list" where
  "bestStep m shotsGrid y st x =
     (if cellOr shotsGrid (int x) (int y) = EMPTY \<or> cellOr shotsGrid (int x) (int y) = RADAR_CONTACT
      then (if fst st < m ! y ! x then (m ! y ! x, [(x, y)])
            else if m ! y ! x = fst st then (fst st, snd st @ [(x, y)])
            else st)
      else st)"

definition findBestTargets :: "ProbabilityMap \<Rightarrow> Grid \<Rightarrow> (nat \<times> nat) list" where
  "findBestTargets m shotsGrid =
     snd (foldl (\<lambda>st y. foldl (bestStep m shotsGrid y) st [0..<length (m ! y)])
                (- 1, []) [0..<length m])"

text \<open>A loop whose body may throw.\<close>

fun foldM :: "('s \<Rightarrow> 'a \<Rightarrow> 's option) \<Rightarrow> 's \<Rightarrow> 'a list \<Rightarrow> 's option" where
  "foldM f s [] = Some s"
| "foldM f s (a # as) = (case f s a of None \<Rightarrow> None | Some s' \<Rightarrow> foldM f s' as)"

text \<open>
  The density of the 2 x 2 block at \<open>(x, y)\<close>: the sum of its four numbers. The outer
  \<open>None\<close> is the TypeError of reading a row the map does not have; \<open>Some None\<close> is the
  \<open>NaN\<close> of adding an \<open>undefined\<close> cell, which no comparison accepts.
\<close>

definition density :: "ProbabilityMap \<Rightarrow> int \<Rightarrow> int \<Rightarrow> int option option" where
  "density m x y = do {
     r0 \<leftarrow> at m y;
     r1 \<leftarrow> at m (y + 1);
     Some (do {
       a \<leftarrow> at r0 x;
       b \<leftarrow> at r1 x;
       c \<leftarrow> at r0 (x + 1);
       e \<leftarrow> at r1 (x + 1);
       Some (a + b + c + e)
     })
   }"

text \<open>\<open>findBestRadarSpot\<close>: the first block of the largest density, \<open>(0, 0)\<close> when there is none.\<close>

definition radarStep :: "ProbabilityMap \<Rightarrow> nat \<Rightarrow> int \<times> coord \<Rightarrow> nat \<Rightarrow> (int \<times> coord) option" where
  "radarStep m y st x = do {
     dn \<leftarrow> density m (int x) (int y);
     Some (case dn of
             Some v \<Rightarrow> if fst st < v then (v, (int x, int y)) else st
           | None \<Rightarrow> st)
   }"

definition findBestRadarSpot :: "ProbabilityMap \<Rightarrow> GridDimensions \<Rightarrow> coord option" where
  "findBestRadarSpot m d =
     map_option snd
       (foldM (\<lambda>st y. foldM (radarStep m y) st [0..<nat (cols d - 1)])
              (- 1, (0, 0)) [0..<nat (rows d - 1)])"

text \<open>
  \<open>findBestDecoySpot\<close>: one of the blocks of the smallest density whose top-left cell is
  \<open>EMPTY\<close> in the shot grid, or \<open>null\<close>. The minimum starts at \<open>Infinity\<close>, which is \<open>None\<close>.
\<close>

definition decoyStep ::
  "ProbabilityMap \<Rightarrow> Grid \<Rightarrow> nat \<Rightarrow> int option \<times> coord list \<Rightarrow> nat
     \<Rightarrow> (int option \<times> coord list) option" where
  "decoyStep m shotsGrid y st x =
     (if cellOr shotsGrid (int x) (int y) = EMPTY
      then do {
        dn \<leftarrow> density m (int x) (int y);
        Some (case dn of
                Some v \<Rightarrow>
                  if (case fst st of None \<Rightarrow> True | Some mn \<Rightarrow> v < mn)
                  then (Some v, [(int x, int y)])
                  else if fst st = Some v then (fst st, snd st @ [(int x, int y)])
                  else st
              | None \<Rightarrow> st)
      }
      else Some st)"

definition findBestDecoySpot ::
  "nat \<Rightarrow> ProbabilityMap \<Rightarrow> Grid \<Rightarrow> GridDimensions \<Rightarrow> coord option option" where
  "findBestDecoySpot r m shotsGrid d =
     map_option (\<lambda>st. pick r (snd st))
       (foldM (\<lambda>st y. foldM (decoyStep m shotsGrid y) st [0..<nat (cols d - 1)])
              (None, []) [0..<nat (rows d - 1)])"

text \<open>
  \<open>findShipToRelocate\<close>: the first type in the priority list whose healthy, unmoved ship
  lies on cells of a total threat above twice its length, in the opponent's map of the AI.
\<close>

definition threatAt :: "ProbabilityMap \<Rightarrow> coord \<Rightarrow> int" where
  "threatAt m p =
     (case at m (snd p) of
        None \<Rightarrow> 0
      | Some row \<Rightarrow> (case at row (fst p) of None \<Rightarrow> 0 | Some v \<Rightarrow> v))"

fun firstThreatened :: "ProbabilityMap \<Rightarrow> Ship list \<Rightarrow> ShipType list \<Rightarrow> Ship option" where
  "firstThreatened m shs [] = None"
| "firstThreatened m shs (t # ts) =
     (case find (\<lambda>s. stype s = t \<and> \<not> isDamaged s \<and> \<not> isSunk s \<and> \<not> hasBeenRelocated s) shs of
        Some sh \<Rightarrow>
          if slength sh * 2 < foldl (\<lambda>sum p. sum + threatAt m p) 0 (positions sh)
          then Some sh else firstThreatened m shs ts
      | None \<Rightarrow> firstThreatened m shs ts)"

definition shotsOr :: "Player \<Rightarrow> string \<Rightarrow> GridDimensions \<Rightarrow> Grid option" where
  "shotsOr p k d =
     (case shots p k of Some g \<Rightarrow> Some g | None \<Rightarrow> createEmptyGrid (rows d) (cols d))"

definition findShipToRelocate :: "Player \<Rightarrow> Player \<Rightarrow> GridDimensions \<Rightarrow> Ship option option" where
  "findShipToRelocate aiPlayer opponent d = do {
     opponentShotsGrid \<leftarrow> shotsOr opponent (pid aiPlayer) d;
     opponentProbabilityMap \<leftarrow> buildProbabilityMap aiPlayer opponentShotsGrid d;
     Some (firstThreatened opponentProbabilityMap (ships aiPlayer)
             [Mothership, Repairship, Jamship, Radarship, Decoyship, Commandship])
   }"

text \<open>
  \<open>positions.find(pos => grid[pos.y][pos.x] === HIT && (hitLog... ?? 999) < turn)\<close>: the
  first damaged cell that is old enough to repair. Reading a row the grid does not have
  throws.
\<close>

fun findRepairable :: "Player \<Rightarrow> GameState \<Rightarrow> coord list \<Rightarrow> coord option option" where
  "findRepairable p gs [] = Some None"
| "findRepairable p gs (c # cs) =
     (case cellAt (grid p) (fst c) (snd c) of
        None \<Rightarrow> None
      | Some v \<Rightarrow> if v = Some HIT \<and> damageTurn gs (pid p) c < turn gs then Some (Some c)
                  else findRepairable p gs cs)"

text \<open>
  The decision tree is a chain of stages. A stage yields a move, falls through
  (\<open>Some None\<close>) or throws (\<open>None\<close>); a later stage runs only when the earlier ones fell
  through.
\<close>

definition orElse :: "AIMove option option \<Rightarrow> AIMove option \<Rightarrow> AIMove option" where
  "orElse stage rest =
     (case stage of None \<Rightarrow> None | Some (Some mv) \<Rightarrow> Some mv | Some None \<Rightarrow> rest)"

text \<open>Priority 1: escape with a damaged Mothership, or repair it.\<close>

definition urgentMove :: "Player \<Rightarrow> GameState \<Rightarrow> AIMove option option" where
  "urgentMove aiPlayer gs =
     (case find (\<lambda>s. stype s = Mothership) (ships aiPlayer) of
        None \<Rightarrow> Some None
      | Some mothership \<Rightarrow>
          if isDamaged mothership \<and> escapeSkillUnlocked aiPlayer = Some True
               \<and> 0 < uses aiPlayer Mothership
          then Some (Some (UseSkill Mothership None None))
          else if isDamaged mothership \<and> cooldown aiPlayer Repairship = 0
                    \<and> \<not> hasBeenRepaired mothership
          then map_option (map_option (\<lambda>c. UseSkill Repairship (Some c) None))
                 (findRepairable aiPlayer gs (positions mothership))
          else Some None)"

text \<open>The last shot on the opponent's damaged Mothership.\<close>

definition winningShot :: "Player \<Rightarrow> Grid \<Rightarrow> AIMove option" where
  "winningShot opponent shotsGrid =
     (case find (\<lambda>s. stype s = Mothership) (ships opponent) of
        None \<Rightarrow> None
      | Some om \<Rightarrow>
          if isDamaged om
               \<and> int (length (filter (\<lambda>p. cellOr shotsGrid (fst p) (snd p) = HIT) (positions om)))
                   = slength om - 1
          then map_option Attack
                 (find (\<lambda>p. cellOr shotsGrid (fst p) (snd p) = EMPTY) (positions om))
          else None)"

text \<open>
  \<open>bestTarget && probabilityMap[bestTarget.y][bestTarget.x] > 10\<close>: the best target is a
  cell of the map, so the read is in range.
\<close>

definition confidentAttack :: "ProbabilityMap \<Rightarrow> (nat \<times> nat) option \<Rightarrow> AIMove option" where
  "confidentAttack m bestTarget =
     (case bestTarget of
        Some (x, y) \<Rightarrow> if 10 < m ! y ! x then Some (Attack (int x, int y)) else None
      | None \<Rightarrow> None)"

text \<open>
  The jammer, on the rounded centre of the known hits. \<open>Math.round\<close> of a non-negative
  quotient \<open>a / n\<close> is \<open>(2 * a + n) div (2 * n)\<close>.
\<close>

definition jamMove :: "Player \<Rightarrow> Player \<Rightarrow> Grid \<Rightarrow> GridDimensions \<Rightarrow> AIMove option" where
  "jamMove aiPlayer opponent shotsGrid d =
     (if cooldown aiPlayer Jamship = 0 \<and> list_ex isDamaged (ships opponent)
           \<and> (case find (\<lambda>s. stype s = Repairship) (ships opponent) of
                 None \<Rightarrow> False | Some r \<Rightarrow> \<not> isSunk r)
           \<and> cooldown opponent Repairship = 0
      then (let hitCells = hitCellsOf shotsGrid d;
                n = int (length hitCells);
                sx = foldl (\<lambda>acc c. acc + int (fst c)) 0 hitCells;
                sy = foldl (\<lambda>acc c. acc + int (snd c)) 0 hitCells
            in if hitCells \<noteq> []
               then Some (UseSkill Jamship
                            (Some ((2 * sx + n) div (2 * n), (2 * sy + n) div (2 * n))) None)
               else None)
      else None)"

text \<open>Strategic relocation with the Commandship.\<close>

definition relocationMove :: "Player \<Rightarrow> Player \<Rightarrow> GridDimensions \<Rightarrow> AIMove option option" where
  "relocationMove aiPlayer opponent d =
     (if cooldown aiPlayer Commandship = 0
      then map_option (map_option (\<lambda>sh. UseSkill Commandship None (Some (stype sh))))
             (findShipToRelocate aiPlayer opponent d)
      else Some None)"

text \<open>
  Proactive repair of the longest damaged ship; the sort is stable, so the first of the
  longest ones is taken.
\<close>

definition repairMove :: "Player \<Rightarrow> GameState \<Rightarrow> AIMove option option" where
  "repairMove aiPlayer gs =
     (if cooldown aiPlayer Repairship = 0
      then (let damagedShips =
                  filter (\<lambda>s. isDamaged s \<and> \<not> isSunk s \<and> \<not> hasBeenRepaired s
                               \<and> stype s \<noteq> Mothership) (ships aiPlayer)
            in if damagedShips \<noteq> []
               then map_option (map_option (\<lambda>c. UseSkill Repairship (Some c) None))
                      (findRepairable aiPlayer gs
                         (positions (hd (sort_key (\<lambda>s. - slength s) damagedShips))))
               else Some None)
      else Some None)"

definition radarMove :: "Player \<Rightarrow> ProbabilityMap \<Rightarrow> GridDimensions \<Rightarrow> AIMove option option" where
  "radarMove aiPlayer m d =
     (if cooldown aiPlayer Radarship = 0
      then map_option (\<lambda>spot. Some (UseSkill Radarship (Some spot) None)) (findBestRadarSpot m d)
      else Some None)"

definition decoyMove ::
  "nat \<Rightarrow> Player \<Rightarrow> ProbabilityMap \<Rightarrow> Grid \<Rightarrow> GridDimensions \<Rightarrow> AIMove option option" where
  "decoyMove r aiPlayer m shotsGrid d =
     (if 0 < uses aiPlayer Decoyship
      then map_option (map_option (\<lambda>spot. UseSkill Decoyship (Some spot) None))
             (findBestDecoySpot r m shotsGrid d)
      else Some None)"

text \<open>The default attack, and the fallback on a random empty cell, \<open>(0, 0)\<close> if there is none.\<close>

definition defaultAttack :: "nat \<Rightarrow> (nat \<times> nat) option \<Rightarrow> Grid \<Rightarrow> GridDimensions \<Rightarrow> AIMove" where
  "defaultAttack r bestTarget shotsGrid d =
     (case bestTarget of
        Some (x, y) \<Rightarrow> Attack (int x, int y)
      | None \<Rightarrow>
          (let emptyCells =
                 concat (map (\<lambda>y. map (\<lambda>x. (int x, int y))
                                      (filter (\<lambda>x. cellOr shotsGrid (int x) (int y) = EMPTY)
                                              [0..<nat (cols d)]))
                             [0..<nat (rows d)])
           in Attack (case pick r emptyCells of Some c \<Rightarrow> c | None \<Rightarrow> (0, 0))))"

text \<open>
  \<open>getAITacticalMove\<close>. The three calls of \<open>Math.random\<close> are the numbers \<open>rnd 0\<close>, \<open>rnd 1\<close>
  and \<open>rnd 2\<close>. \<open>None\<close>: the call throws.
\<close>

definition getAITacticalMove :: "(nat \<Rightarrow> nat) \<Rightarrow> Player \<Rightarrow> Player \<Rightarrow> GameState \<Rightarrow> AIMove option" where
  "getAITacticalMove rnd aiPlayer opponent gs = do {
     let d = gridDimensions gs;
     shotsGrid \<leftarrow> shotsOr aiPlayer (pid opponent) d;
     probabilityMap \<leftarrow> buildProbabilityMap opponent shotsGrid d;
     let bestTarget = pick (rnd 0) (findBestTargets probabilityMap shotsGrid);
     orElse (urgentMove aiPlayer gs)
    (orElse (Some (winningShot opponent shotsGrid))
    (orElse (Some (confidentAttack probabilityMap bestTarget))
    (orElse (Some (jamMove aiPlayer opponent shotsGrid d))
    (orElse (relocationMove aiPlayer opponent d)
    (orElse (repairMove aiPlayer gs)
    (orElse (radarMove aiPlayer probabilityMap d)
    (orElse (decoyMove (rnd 1) aiPlayer probabilityMap shotsGrid d)
    (Some (defaultAttack (rnd 2) bestTarget shotsGrid d)))))))))
   }"

section \<open>The first move of a game\<close>

text \<open>
  A fleet as \<open>createInitialPlayer\<close> makes it from a configuration, after placement: the
  types and lengths of the configuration, no ship sunk or damaged.
\<close>

definition freshFleet :: "ShipConfig list \<Rightarrow> Player \<Rightarrow> bool" where
  "freshFleet cfg p \<longleftrightarrow>
     map (\<lambda>s. (stype s, slength s)) (ships p) = map (\<lambda>c. (cfg_type c, cfg_length c)) cfg
     \<and> list_all (\<lambda>s. \<not> isSunk s \<and> \<not> isDamaged s) (ships p)"

text \<open>No shot recorded by \<open>p\<close> on \<open>q\<close>: no shot grid yet, or one whose cells are all \<open>EMPTY\<close>.\<close>

definition noShots :: "Player \<Rightarrow> Player \<Rightarrow> bool" where
  "noShots p q \<longleftrightarrow>
     (case shots p (pid q) of
        None \<Rightarrow> True
      | Some g \<Rightarrow> list_all (list_all (\<lambda>c. c = EMPTY)) g)"


section \<open>Example states for turn advancement\<close>




section \<open>Example states for shots\<close>

text \<open>
  A 3 x 3 board. Player \<open>b\<close> has one ship of length 2 on the cells (0,0) and (1,0); player
  \<open>a\<close>, whose turn it is, has one on (0,2) and (1,2).
\<close>

definition exShip :: "ShipType \<Rightarrow> coord list \<Rightarrow> Ship" where
  "exShip ty ps =
     \<lparr>sname = ''Scout'', stype = ty, slength = int (length ps), positions = ps,
      isSunk = False, isDamaged = False, hasBeenRepaired = False, hasBeenRelocated = False\<rparr>"

definition exEmptyGrid :: Grid where
  "exEmptyGrid = [[EMPTY, EMPTY, EMPTY], [EMPTY, EMPTY, EMPTY], [EMPTY, EMPTY, EMPTY]]"

definition exFleetA :: "GameMode \<Rightarrow> Player" where
  "exFleetA m =
     \<lparr>pid = ''a'', pname = ''Ann'', isAI = False,
      grid = [[EMPTY, EMPTY, EMPTY], [EMPTY, EMPTY, EMPTY], [SHIP, SHIP, EMPTY]],
      ships = [exShip (if m = TACTICAL then Mothership else Plain ''Destroyer'') [(0, 2), (1, 2)]],
      shots = [''b'' \<mapsto> exEmptyGrid], isReady = True, isEliminated = False, score = 0,
      skillCooldowns = Map.empty, skillUses = Map.empty,
      decoyPositions = [], jammedPositions = Some [], jamTurnsRemaining = Some 0,
      escapeSkillUnlocked = Some False\<rparr>"

definition exFleetB :: "GameMode \<Rightarrow> Player" where
  "exFleetB m =
     \<lparr>pid = ''b'', pname = ''Bob'', isAI = False,
      grid = [[SHIP, SHIP, EMPTY], [EMPTY, EMPTY, EMPTY], [EMPTY, EMPTY, EMPTY]],
      ships = [exShip (if m = TACTICAL then Radarship else Plain ''Destroyer'') [(0, 0), (1, 0)]],
      shots = [''a'' \<mapsto> exEmptyGrid], isReady = True, isEliminated = False, score = 0,
      skillCooldowns = Map.empty, skillUses = Map.empty,
      decoyPositions = [], jammedPositions = Some [], jamTurnsRemaining = Some 0,
      escapeSkillUnlocked = Some False\<rparr>"

definition exFleetState :: "GameMode \<Rightarrow> GameState" where
  "exFleetState m =
     \<lparr>gameId = ''g'', phase = PLAYING, players = [exFleetA m, exFleetB m],
      currentPlayerId = Some ''a'', winner = None, maxPlayers = 2, turn = 1,
      gridDimensions = \<lparr>rows = 3, cols = 3\<rparr>, shipsConfig = [], gameMode = m,
      log = [], hasActedThisTurn = False, activeAction = None, radarScanResult = None,
      jammedArea = None, hitLog = None, lastHitTurn = None\<rparr>"

text \<open>The same board after \<open>a\<close> has hit the cell (0,0) of \<open>b\<close>'s ship.\<close>

definition exHitState :: "GameMode \<Rightarrow> GameState" where
  "exHitState m =
     (exFleetState m)
       \<lparr>players :=
          [(exFleetA m)\<lparr>shots := [''b'' \<mapsto>
              [[HIT, EMPTY, EMPTY], [EMPTY, EMPTY, EMPTY], [EMPTY, EMPTY, EMPTY]]]\<rparr>,
           (exFleetB m)\<lparr>grid :=
              [[HIT, SHIP, EMPTY], [EMPTY, EMPTY, EMPTY], [EMPTY, EMPTY, EMPTY]]\<rparr>]\<rparr>"

section \<open>Example states for skills\<close>

text \<open>
  A tactical game on a 3 x 3 board in turn 3. Player \<open>a\<close>, whose turn it is, has a
  Repairship on (0,2) and (1,2) that was hit on (0,2) in the turn given as parameter, and
  a Radarship cooldown of 2. Player \<open>b\<close> is the AI, with a Radarship on (0,0) and (1,0).
\<close>

definition exSkillA :: Player where
  "exSkillA =
     \<lparr>pid = ''a'', pname = ''Ann'', isAI = False,
      grid = [[EMPTY, EMPTY, EMPTY], [EMPTY, EMPTY, EMPTY], [HIT, SHIP, EMPTY]],
      ships = [(exShip Repairship [(0, 2), (1, 2)])\<lparr>isDamaged := True\<rparr>],
      shots = [''b'' \<mapsto> exEmptyGrid], isReady = True, isEliminated = False, score = 0,
      skillCooldowns = [Radarship \<mapsto> 2, Commandship \<mapsto> 0, Repairship \<mapsto> 0, Jamship \<mapsto> 0],
      skillUses = [Decoyship \<mapsto> 2, Mothership \<mapsto> 1],
      decoyPositions = [], jammedPositions = Some [], jamTurnsRemaining = Some 0,
      escapeSkillUnlocked = Some False\<rparr>"

definition exSkillB :: Player where
  "exSkillB =
     \<lparr>pid = ''b'', pname = ''Gemini AI (AI)'', isAI = True,
      grid = [[SHIP, SHIP, EMPTY], [EMPTY, EMPTY, EMPTY], [EMPTY, EMPTY, EMPTY]],
      ships = [exShip Radarship [(0, 0), (1, 0)]],
      shots = [''a'' \<mapsto> [[EMPTY, EMPTY, EMPTY], [EMPTY, EMPTY, EMPTY], [HIT, EMPTY, EMPTY]]],
      isReady = True, isEliminated = False, score = 0,
      skillCooldowns = [Radarship \<mapsto> 0, Commandship \<mapsto> 0, Repairship \<mapsto> 0, Jamship \<mapsto> 0],
      skillUses = [Decoyship \<mapsto> 2, Mothership \<mapsto> 1],
      decoyPositions = [], jammedPositions = Some [], jamTurnsRemaining = Some 0,
      escapeSkillUnlocked = Some False\<rparr>"

definition exSkillState :: "int \<Rightarrow> GameState" where
  "exSkillState damagedInTurn =
     \<lparr>gameId = ''g'', phase = PLAYING, players = [exSkillA, exSkillB],
      currentPlayerId = Some ''a'', winner = None, maxPlayers = 2, turn = 3,
      gridDimensions = \<lparr>rows = 3, cols = 3\<rparr>, shipsConfig = [], gameMode = TACTICAL,
      log = [], hasActedThisTurn = False, activeAction = None, radarScanResult = None,
      jammedArea = None,
      hitLog = Some [''a'' \<mapsto> [(0, 2) \<mapsto> damagedInTurn]], lastHitTurn = None\<rparr>"

definition exCoords :: "int \<Rightarrow> int \<Rightarrow> SkillOptions" where
  "exCoords x y =
     \<lparr>opt_x = Some x, opt_y = Some y, opt_isHorizontal = None, opt_targetShipType = None\<rparr>"

definition exRnd :: "nat \<Rightarrow> bool \<times> int \<times> int" where
  "exRnd i = (True, 0, 0)"

text \<open>
  The same game with the Commandship skill armed by the human player \<open>a\<close> for an
  undamaged ship: the ship is off the grid, and its footprint (0,2), (1,2) is recorded
  in the in-progress action.
\<close>

definition exArmedState :: GameState where
  "exArmedState =
     (exSkillState 2)
       \<lparr>players :=
          [exSkillA\<lparr>grid := exEmptyGrid,
                    ships := [(exShip Radarship [(0, 2), (1, 2)])\<lparr>positions := []\<rparr>]\<rparr>,
           exSkillB],
        activeAction := Some
          \<lparr>aa_playerId = ''a'', aa_type = ACT_SKILL, aa_shipType = Some Commandship,
           aa_stage = Some PLACE_SHIP, aa_shipToMove = Some ((exShip Radarship [(0, 2), (1, 2)])\<lparr>positions := []\<rparr>),
           aa_isHorizontal = Some True,
           aa_originalPositions = Some [(0, 2, SHIP), (1, 2, SHIP)]\<rparr>\<rparr>"

text \<open>The state a rejected placement returns: the ship is back on its recorded cells.\<close>

definition exRestoredState :: GameState where
  "exRestoredState =
     exArmedState
       \<lparr>players :=
          [exSkillA\<lparr>grid := [[EMPTY, EMPTY, EMPTY], [EMPTY, EMPTY, EMPTY], [SHIP, SHIP, EMPTY]],
                    ships := [exShip Radarship [(0, 2), (1, 2)]]\<rparr>,
           exSkillB],
        activeAction := None\<rparr>"

text \<open>
  Player \<open>a\<close> jams the block around (0,0), which holds the Radarship of \<open>b\<close>, and ends the
  turn; the definitions name the states these two steps return.
\<close>

definition exJammedState :: GameState where
  "exJammedState =
     (case handleUseSkill exRnd (Some (exSkillState 2)) Jamship (exCoords 0 0) False
             (Some (exSkillState 2)) of
        Some (True, Some s) \<Rightarrow> s
      | _ \<Rightarrow> exSkillState 2)"

definition exJammedTurn :: GameState where
  "exJammedTurn = (case advanceTurn exJammedState of Some s \<Rightarrow> s | None \<Rightarrow> exJammedState)"

section \<open>Example boards for the AI\<close>

text \<open>
  A 3 x 3 board on which the opponent has two ships of length 2, down the columns 0 and
  2 from the top row. The AI has hit the top cell of each: the cell (1,0) between the two
  hits is still empty.
\<close>

definition exHeatOpponent :: Player where
  "exHeatOpponent =
     (exFleetB TACTICAL)
       \<lparr>grid := [[HIT, EMPTY, HIT], [SHIP, EMPTY, SHIP], [EMPTY, EMPTY, EMPTY]],
        ships := [exShip Radarship [(0, 0), (0, 1)], exShip Jamship [(2, 0), (2, 1)]]\<rparr>"

definition exHeatShots :: Grid where
  "exHeatShots = [[HIT, EMPTY, HIT], [EMPTY, EMPTY, EMPTY], [EMPTY, EMPTY, EMPTY]]"

definition exHeatDims :: GridDimensions where
  "exHeatDims = \<lparr>rows = 3, cols = 3\<rparr>"


section \<open>Properties of arrays and grids\<close>

lemma findIndex_SomeD:
  "findIndex P xs = Some i \<Longrightarrow> i < length xs \<and> P (xs ! i)"
  by (induction xs arbitrary: i) (auto split: if_splits)

section \<open>Properties of advanceTurn\<close>










section \<open>Grids, and what every branch of processShot leaves behind\<close>

lemma at_list_update:
  assumes "0 \<le> i"
  shows "at (xs[nat i := v]) j = (if j = i \<and> i < int (length xs) then Some v else at xs j)"
proof (cases "j = i")
  case True
  then show ?thesis using assms by (simp add: at_def)
next
  case False
  with assms have "0 \<le> j \<Longrightarrow> nat i \<noteq> nat j" by simp
  then show ?thesis using False by (simp add: at_def)
qed

lemma cellAt_setCell:
  assumes "setCell g cx cy v = Some g'"
  shows "cellAt g' px py = (if px = cx \<and> py = cy then Some (Some v) else cellAt g px py)"
proof -
  from assms obtain row where row: "at g cy = Some row" "0 \<le> cx" "cx < int (length row)"
    "g' = g[nat cy := row[nat cx := v]]"
    by (auto simp: setCell_def split: option.splits if_splits)
  from row(1) have cy: "0 \<le> cy" "cy < int (length g)" "row = g ! nat cy"
    by (auto simp: at_def split: if_splits)
  show ?thesis
  proof (cases "py = cy")
    case True
    then show ?thesis using row cy
      by (simp add: cellAt_def at_list_update)
  next
    case False
    then show ?thesis using row cy
      by (simp add: cellAt_def at_list_update)
  qed
qed

lemma setCell_Some_iff:
  "(\<exists>g'. setCell g cx cy v = Some g') \<longleftrightarrow> (\<exists>c. cellAt g cx cy = Some (Some c))"
  by (simp add: setCell_def cellAt_def at_def split: option.splits if_splits)

lemma cellAt_markAll:
  "markAll g ps v = Some g' \<Longrightarrow>
     cellAt g' px py = (if (px, py) \<in> set ps then Some (Some v) else cellAt g px py)"
proof (induction ps arbitrary: g)
  case Nil
  then show ?case by simp
next
  case (Cons p ps)
  then obtain g1 where g1: "setCell g (fst p) (snd p) v = Some g1" "markAll g1 ps v = Some g'"
    by (auto split: option.splits)
  show ?case using Cons.IH[OF g1(2)] cellAt_setCell[OF g1(1), of px py]
    by (cases p) auto
qed

lemma findIndex_map: "findIndex P (map f xs) = findIndex (\<lambda>a. P (f a)) xs"
  by (induction xs) auto

lemma map_update_same: "f v = f (xs ! i) \<Longrightarrow> map f (xs[i := v]) = map f xs"
  by (simp add: map_update list_update_same_conv) (metis list_update_id map_update)

lemma nth_update_any: "P (xs ! i) \<Longrightarrow> P v \<Longrightarrow> P (xs[i := v] ! i)"
  by (cases "i < length xs") (simp_all add: list_update_beyond)

lemma commitShot_pids:
  assumes "\<And>p. pid (f p) = pid p"
  shows "map pid (players (commitShot s ai key sg ti f)) = map pid (players s)"
  by (simp add: commitShot_def Let_def assms map_update_same)

lemma commitShot_shots:
  assumes "\<And>p. shots (f p) = shots p" "ai < length (players s)"
  shows "shots (players (commitShot s ai key sg ti f) ! ai) key = Some sg"
  using assms by (cases "ti = ai") (simp_all add: commitShot_def Let_def nth_list_update)

lemma commitShot_other [simp]:
  "currentPlayerId (commitShot s ai key sg ti f) = currentPlayerId s"
  "gameMode (commitShot s ai key sg ti f) = gameMode s"
  "gridDimensions (commitShot s ai key sg ti f) = gridDimensions s"
  "length (players (commitShot s ai key sg ti f)) = length (players s)"
  by (simp_all add: commitShot_def Let_def)

lemma finishClassic_pids:
  "map pid (players (finishClassic s ti e)) = map pid (players s)"
  by (simp add: finishClassic_def Let_def map_update_same)

lemma finishClassic_shots:
  "shots (players (finishClassic s ti e) ! i) = shots (players s ! i)"
proof (cases "i = ti")
  case True
  then show ?thesis
    by (cases "ti < length (players s)")
       (simp_all add: finishClassic_def Let_def list_update_beyond)
next
  case False
  then show ?thesis by (simp add: finishClassic_def Let_def)
qed

lemma finishClassic_other [simp]:
  "currentPlayerId (finishClassic s ti e) = currentPlayerId s"
  "gameMode (finishClassic s ti e) = gameMode s"
  "gridDimensions (finishClassic s ti e) = gridDimensions s"
  "length (players (finishClassic s ti e)) = length (players s)"
  by (simp_all add: finishClassic_def Let_def)

lemma sameGame_commit:
  assumes "\<And>p. pid (f p) = pid p"
  shows "sameGame s (commitShot s ai key sg ti f)"
  by (simp add: sameGame_def commitShot_pids assms)

lemma shotRecorded_commit:
  assumes "\<And>p. shots (f p) = shots p" "ai < length (players s)"
    "cellAt sg x y \<in> {Some (Some HIT), Some (Some MISS), Some (Some SUNK)}"
  shows "shotRecorded (commitShot s ai key sg ti f) ai key x y"
  using assms by (simp add: shotRecorded_def commitShot_shots)

lemma sameGame_upd [simp]:
  "sameGame s (s'\<lparr>log := l\<rparr>) = sameGame s s'"
  "sameGame s (s'\<lparr>hasActedThisTurn := b\<rparr>) = sameGame s s'"
  "sameGame s (s'\<lparr>hitLog := h\<rparr>) = sameGame s s'"
  "sameGame s (s'\<lparr>phase := ph\<rparr>) = sameGame s s'"
  "sameGame s (s'\<lparr>winner := w\<rparr>) = sameGame s s'"
  by (simp_all add: sameGame_def)

lemma shotRecorded_upd [simp]:
  "shotRecorded (s'\<lparr>log := l\<rparr>) = shotRecorded s'"
  "shotRecorded (s'\<lparr>hasActedThisTurn := b\<rparr>) = shotRecorded s'"
  "shotRecorded (s'\<lparr>hitLog := h\<rparr>) = shotRecorded s'"
  "shotRecorded (s'\<lparr>phase := ph\<rparr>) = shotRecorded s'"
  "shotRecorded (s'\<lparr>winner := w\<rparr>) = shotRecorded s'"
  by (simp_all add: shotRecorded_def fun_eq_iff)

lemma sameGame_finish [simp]: "sameGame s (finishClassic s' ti e) = sameGame s s'"
  by (simp add: sameGame_def finishClassic_pids)

lemma shotRecorded_finish [simp]:
  "shotRecorded (finishClassic s' ti e) ai key x y = shotRecorded s' ai key x y"
  by (simp add: shotRecorded_def finishClassic_shots)

lemma tacticalDecoyHit_result:
  assumes "tacticalDecoyHit s ai key sg ti di e x y = Some s'" "ai < length (players s)"
  shows "sameGame s s' \<and> shotRecorded s' ai key x y"
  using assms
  by (auto simp: tacticalDecoyHit_def Let_def bind_eq_Some_conv cellAt_setCell
           intro!: sameGame_commit shotRecorded_commit split: if_splits)

lemma tacticalMiss_result:
  assumes "tacticalMiss s ai key sg ti tc e x y = Some s'" "ai < length (players s)"
  shows "sameGame s s' \<and> shotRecorded s' ai key x y"
  using assms
  by (auto simp: tacticalMiss_def Let_def bind_eq_Some_conv cellAt_setCell
           intro!: sameGame_commit shotRecorded_commit split: if_splits)

lemma tacticalShipHit_result:
  assumes "tacticalShipHit s ai key sg ti e x y = Some s'" "ai < length (players s)"
  shows "sameGame s s' \<and> shotRecorded s' ai key x y"
  using assms
  by (auto simp: tacticalShipHit_def Let_def bind_eq_Some_conv cellAt_setCell cellAt_markAll
           intro!: sameGame_commit shotRecorded_commit split: if_splits)

lemma classicMiss_result:
  assumes "classicMiss s ai key sg ti e x y = Some s'" "ai < length (players s)"
  shows "sameGame s s' \<and> shotRecorded s' ai key x y"
  using assms
  by (auto simp: classicMiss_def Let_def bind_eq_Some_conv cellAt_setCell
           intro!: sameGame_commit shotRecorded_commit split: if_splits)

lemma classicHit_result:
  assumes "classicHit s ai key sg ti e x y = Some s'" "ai < length (players s)"
  shows "sameGame s s' \<and> shotRecorded s' ai key x y"
  using assms
  by (auto simp: classicHit_def Let_def bind_eq_Some_conv cellAt_setCell cellAt_markAll
           intro!: sameGame_commit shotRecorded_commit split: if_splits option.splits)

section \<open>Firing twice at the same cell\<close>

lemma findIndex_pid:
  "map pid ps' = map pid ps \<Longrightarrow>
     findIndex (\<lambda>p. Some (pid p) = c) ps' = findIndex (\<lambda>p. Some (pid p) = c) ps"
  using findIndex_map[of "\<lambda>i. Some i = c" pid ps] findIndex_map[of "\<lambda>i. Some i = c" pid ps']
  by simp

lemma processShotTactical_result:
  assumes "processShotTactical s ai t x y = Some s'" "ai < length (players s)"
  shows "s' = s \<or> (sameGame s s' \<and> shotRecorded s' ai (shotKey t) x y)"
  using assms
  by (auto simp: processShotTactical_def Let_def bind_eq_Some_conv
           split: if_splits option.splits
           dest: tacticalDecoyHit_result tacticalShipHit_result tacticalMiss_result)

lemma processShotClassic_result:
  assumes "processShotClassic s ai t x y = Some s'" "ai < length (players s)"
  shows "s' = s \<or> (sameGame s s' \<and> shotRecorded s' ai (shotKey t) x y)"
  using assms
  by (auto simp: processShotClassic_def Let_def bind_eq_Some_conv
           split: if_splits
           dest: classicHit_result classicMiss_result)

lemma processShotClassic_target:
  assumes "processShotClassic s ai t x y = Some s'"
  shows "\<exists>ti. findIndex (\<lambda>p. Some (pid p) = t) (players s) = Some ti"
  using assms by (auto simp: processShotClassic_def Let_def bind_eq_Some_conv)

lemma processShotTactical_recorded:
  assumes "shotRecorded s ai (shotKey t) x y"
  shows "processShotTactical s ai t x y = Some s"
  using assms
  by (auto simp: processShotTactical_def shotRecorded_def shotsGridFor_def Let_def
           split: option.splits)

lemma processShotClassic_recorded:
  assumes "shotRecorded s ai (shotKey t) x y"
    "findIndex (\<lambda>p. Some (pid p) = t) (players s) = Some ti"
  shows "processShotClassic s ai t x y = Some s"
  using assms
  by (auto simp: processShotClassic_def shotRecorded_def shotsGridFor_def Let_def
           split: option.splits)

text \<open>
  C3. A second \<open>processShot\<close> with the same target and coordinate, on the state the first
  one returned, returns that state unchanged: the first call has either changed nothing,
  or has left a hit, miss or sunk mark at the cell of the attacker's shot grid, which the
  guard of the second call finds.
\<close>

theorem processShot_twice:
  assumes "processShot s t x y = Some s'"
  shows "processShot s' t x y = Some s'"
proof -
  from assms obtain ai where
    ai: "findIndex (\<lambda>p. Some (pid p) = currentPlayerId s) (players s) = Some ai"
    by (auto simp: processShot_def split: option.splits)
  then have lt: "ai < length (players s)" using findIndex_SomeD by blast
  show ?thesis
  proof (cases "gameMode s = TACTICAL")
    case True
    with assms ai have first: "processShotTactical s ai t x y = Some s'"
      by (simp add: processShot_def)
    from processShotTactical_result[OF first lt] show ?thesis
    proof
      assume "s' = s"
      then show ?thesis using assms by simp
    next
      assume r: "sameGame s s' \<and> shotRecorded s' ai (shotKey t) x y"
      then have "findIndex (\<lambda>p. Some (pid p) = currentPlayerId s') (players s') = Some ai"
        using ai findIndex_pid[of "players s'" "players s"] by (simp add: sameGame_def)
      moreover have "gameMode s' = TACTICAL" using r True by (simp add: sameGame_def)
      ultimately show ?thesis
        using processShotTactical_recorded[of s' ai t x y] r by (simp add: processShot_def)
    qed
  next
    case False
    with assms ai have first: "processShotClassic s ai t x y = Some s'"
      by (simp add: processShot_def)
    from processShotClassic_target[OF first] obtain ti where
      ti: "findIndex (\<lambda>p. Some (pid p) = t) (players s) = Some ti" by blast
    from processShotClassic_result[OF first lt] show ?thesis
    proof
      assume "s' = s"
      then show ?thesis using assms by simp
    next
      assume r: "sameGame s s' \<and> shotRecorded s' ai (shotKey t) x y"
      then have "findIndex (\<lambda>p. Some (pid p) = currentPlayerId s') (players s') = Some ai"
        using ai findIndex_pid[of "players s'" "players s"] by (simp add: sameGame_def)
      moreover have "gameMode s' \<noteq> TACTICAL" using r False by (simp add: sameGame_def)
      moreover have "findIndex (\<lambda>p. Some (pid p) = t) (players s') = Some ti"
        using ti r findIndex_pid[of "players s'" "players s"] by (simp add: sameGame_def)
      ultimately show ?thesis
        using processShotClassic_recorded[of s' ai t x y ti] r by (simp add: processShot_def)
    qed
  qed
qed

lemmas shot_eval_defs = processShot_def processShotTactical_def processShotClassic_def
  tacticalDecoyHit_def tacticalShipHit_def tacticalMiss_def classicHit_def classicMiss_def
  finishClassic_def commitShot_def shotsGridFor_def shotKey_def baseLogEntry_def recordHit_def
  cellAt_def setCell_def at_def exFleetState_def exFleetA_def exFleetB_def exShip_def
  exEmptyGrid_def exHitState_def Let_def

lemma exFleetState_shot_returns:
  "\<exists>s'. processShot (exFleetState TACTICAL) (Some ''b'') 0 0 = Some s'"
  by (simp add: shot_eval_defs)

theorem processShot_twice_witness:
  "\<exists>s'. processShot (exFleetState TACTICAL) (Some ''b'') 0 0 = Some s'
        \<and> processShot s' (Some ''b'') 0 0 = Some s'"
proof -
  from exFleetState_shot_returns obtain s' where
    s': "processShot (exFleetState TACTICAL) (Some ''b'') 0 0 = Some s'" by blast
  from processShot_twice[OF s'] s' show ?thesis by blast
qed

section \<open>Whether a shot ends the turn\<close>

lemma finishClassic_hasActed:
  "hasActedThisTurn (finishClassic s ti e) \<longleftrightarrow>
     hasActedThisTurn s
       \<or> length (filter (\<lambda>p. \<not> isEliminated p) (players (finishClassic s ti e))) \<le> 1"
  by (simp add: finishClassic_def Let_def)

lemma tacticalDecoyHit_hasActed:
  "tacticalDecoyHit s ai key sg ti di e x y = Some s' \<Longrightarrow> \<not> hasActedThisTurn s'"
  by (auto simp: tacticalDecoyHit_def Let_def bind_eq_Some_conv)

lemma tacticalMiss_hasActed:
  "tacticalMiss s ai key sg ti tc e x y = Some s' \<Longrightarrow> hasActedThisTurn s'"
  by (auto simp: tacticalMiss_def Let_def bind_eq_Some_conv)

lemma tacticalShipHit_hasActed:
  "tacticalShipHit s ai key sg ti e x y = Some s' \<Longrightarrow>
     \<exists>si. findIndex (\<lambda>sh. (x, y) \<in> set (positions sh)) (ships (players s ! ti)) = Some si
       \<and> hasActedThisTurn s' = (stype (ships (players s ! ti) ! si) = Mothership)"
  by (auto simp: tacticalShipHit_def Let_def bind_eq_Some_conv split: if_splits)

lemma classicMiss_hasActed:
  "classicMiss s ai key sg ti e x y = Some s' \<Longrightarrow> hasActedThisTurn s'"
  by (auto simp: classicMiss_def Let_def bind_eq_Some_conv finishClassic_hasActed)

lemma classicHit_hasActed:
  "classicHit s ai key sg ti e x y = Some s' \<Longrightarrow>
     hasActedThisTurn s' = (length (filter (\<lambda>p. \<not> isEliminated p) (players s')) \<le> 1)"
  by (auto simp: classicHit_def Let_def bind_eq_Some_conv finishClassic_hasActed
           split: if_splits option.splits)

lemma findIndex_None_iff: "findIndex P xs = None \<longleftrightarrow> (\<forall>a\<in>set xs. \<not> P a)"
  by (induction xs) auto

text \<open>
  C2 (as amended). The call fires at a cell whose entry in the attacker's shot grid is
  still \<open>EMPTY\<close> (or, in tactical mode, \<open>RADAR_CONTACT\<close>). In tactical mode
  \<open>hasActedThisTurn\<close> is then true exactly when no live decoy is on the cell and the shot
  misses or the ship hit is the Mothership. In classic mode it is true exactly when the
  shot misses or at most one player remains that is not eliminated: a hit that ends the
  game also ends the turn.
\<close>

theorem processShot_hasActedThisTurn:
  assumes "processShot s t x y = Some s'"
    and "findIndex (\<lambda>p. Some (pid p) = currentPlayerId s) (players s) = Some ai"
    and "findIndex (\<lambda>p. Some (pid p) = t) (players s) = Some ti"
    and "shotsGridFor s (players s ! ai) (shotKey t) = Some sg"
    and "cellAt sg x y = Some (Some EMPTY)
           \<or> gameMode s = TACTICAL \<and> cellAt sg x y = Some (Some RADAR_CONTACT)"
  shows "hasActedThisTurn s' \<longleftrightarrow>
     (if gameMode s = TACTICAL
      then (x, y) \<notin> set (decoyPositions (players s ! ti)) \<and>
           (cellAt (grid (players s ! ti)) x y = Some (Some SHIP) \<longrightarrow>
              (\<exists>si. findIndex (\<lambda>sh. (x, y) \<in> set (positions sh)) (ships (players s ! ti))
                      = Some si
                 \<and> stype (ships (players s ! ti) ! si) = Mothership))
      else cellAt (grid (players s ! ti)) x y
             \<notin> {Some (Some SHIP), Some (Some HIT), Some (Some SUNK)}
           \<or> length (filter (\<lambda>p. \<not> isEliminated p) (players s')) \<le> 1)"
proof (cases "gameMode s = TACTICAL")
  case True
  let ?target = "players s ! ti"
  show ?thesis
  proof (cases "findIndex (\<lambda>p. p = (x, y)) (decoyPositions ?target)")
    case (Some di)
    then have "(x, y) \<in> set (decoyPositions ?target)"
      using findIndex_SomeD[OF Some] by (metis nth_mem)
    moreover have "tacticalDecoyHit s ai (shotKey t) sg ti di
        ((baseLogEntry s (players s ! ai) x y)\<lparr>le_targetId := Some (pid ?target),
            le_targetName := Some (pname ?target)\<rparr>) x y = Some s'"
      using assms True Some
      by (auto simp: processShot_def processShotTactical_def Let_def)
    ultimately show ?thesis using True tacticalDecoyHit_hasActed by auto
  next
    case None
    then have nd: "(x, y) \<notin> set (decoyPositions ?target)"
      by (auto simp: findIndex_None_iff)
    from assms True None obtain tc where tc: "cellAt (grid ?target) x y = Some tc"
      and br: "(if tc = Some SHIP
                then tacticalShipHit s ai (shotKey t) sg ti
                  ((baseLogEntry s (players s ! ai) x y)\<lparr>le_targetId := Some (pid ?target),
                      le_targetName := Some (pname ?target)\<rparr>) x y
                else tacticalMiss s ai (shotKey t) sg ti tc
                  ((baseLogEntry s (players s ! ai) x y)\<lparr>le_targetId := Some (pid ?target),
                      le_targetName := Some (pname ?target)\<rparr>) x y) = Some s'"
      by (auto simp: processShot_def processShotTactical_def Let_def bind_eq_Some_conv)
    show ?thesis
    proof (cases "tc = Some SHIP")
      case True
      with br tacticalShipHit_hasActed show ?thesis
        using \<open>gameMode s = TACTICAL\<close> nd tc by fastforce
    next
      case False
      with br tacticalMiss_hasActed show ?thesis
        using \<open>gameMode s = TACTICAL\<close> nd tc by fastforce
    qed
  qed
next
  case False
  let ?target = "players s ! ti"
  from assms False have e: "cellAt sg x y = Some (Some EMPTY)" by simp
  from assms False e obtain tc where tc: "cellAt (grid ?target) x y = Some tc"
    and br: "(if tc = Some SHIP \<or> tc = Some HIT \<or> tc = Some SUNK
              then classicHit s ai (shotKey t) sg ti
                ((baseLogEntry s (players s ! ai) x y)\<lparr>le_targetId := t,
                    le_targetName := Some (pname ?target)\<rparr>) x y
              else classicMiss s ai (shotKey t) sg ti
                ((baseLogEntry s (players s ! ai) x y)\<lparr>le_targetId := t,
                    le_targetName := Some (pname ?target)\<rparr>) x y) = Some s'"
    by (auto simp: processShot_def processShotClassic_def Let_def bind_eq_Some_conv)
  show ?thesis
  proof (cases "tc = Some SHIP \<or> tc = Some HIT \<or> tc = Some SUNK")
    case True
    with br classicHit_hasActed[of s ai "shotKey t" sg ti _ x y s'] show ?thesis
      using False tc by auto
  next
    case False
    with br classicMiss_hasActed[of s ai "shotKey t" sg ti _ x y s'] show ?thesis
      using \<open>gameMode s \<noteq> TACTICAL\<close> tc by auto
  qed
qed

theorem processShot_hasActedThisTurn_witness:
  "\<exists>s'. processShot (exFleetState TACTICAL) (Some ''b'') 0 0 = Some s'
        \<and> \<not> hasActedThisTurn s'"
proof -
  from exFleetState_shot_returns obtain s' where
    s': "processShot (exFleetState TACTICAL) (Some ''b'') 0 0 = Some s'" by blast
  have h2: "findIndex (\<lambda>p. Some (pid p) = currentPlayerId (exFleetState TACTICAL))
              (players (exFleetState TACTICAL)) = Some 0"
    by (simp add: exFleetState_def exFleetA_def)
  have h3: "findIndex (\<lambda>p. Some (pid p) = Some ''b'') (players (exFleetState TACTICAL)) = Some 1"
    by (simp add: exFleetState_def exFleetA_def exFleetB_def)
  have h4: "shotsGridFor (exFleetState TACTICAL) (players (exFleetState TACTICAL) ! 0)
              (shotKey (Some ''b'')) = Some exEmptyGrid"
    by (simp add: shotsGridFor_def shotKey_def exFleetState_def exFleetA_def)
  have h5: "cellAt exEmptyGrid 0 0 = Some (Some EMPTY)
              \<or> gameMode (exFleetState TACTICAL) = TACTICAL
                  \<and> cellAt exEmptyGrid 0 0 = Some (Some RADAR_CONTACT)"
    by (simp add: cellAt_def at_def exEmptyGrid_def)
  from processShot_hasActedThisTurn[OF s' h2 h3 h4 h5] have "\<not> hasActedThisTurn s'"
    by (simp add: exFleetState_def exFleetA_def exFleetB_def exShip_def cellAt_def at_def)
  with s' show ?thesis by blast
qed

text \<open>
  In classic mode the hit that sinks the last ship ends the game, and with it the turn:
  the shot at (1,0) hits, and \<open>hasActedThisTurn\<close> is true.
\<close>

theorem processShot_classic_hit_counterexample:
  "gameMode (exHitState CLASSIC) = CLASSIC
   \<and> gridCell 1 1 0 (exHitState CLASSIC) = Some (Some SHIP)
   \<and> shotCell 0 ''b'' 1 0 (exHitState CLASSIC) = Some (Some EMPTY)
   \<and> map_option hasActedThisTurn (processShot (exHitState CLASSIC) (Some ''b'') 1 0)
       = Some True"
  by (simp add: shot_eval_defs gridCell_def shotCell_def)


section \<open>Sunk ships and their cells\<close>



lemma readsAs_fun: "readsAs g c v \<Longrightarrow> readsAs g c w \<Longrightarrow> v = w"
  by (simp add: readsAs_def)












lemma shotRecorded_recorded:
  "shotRecorded s ai key x y = recorded (shots (players s ! ai) key) (x, y)"
  by (auto simp: shotRecorded_def recorded_def readsAs_def split: option.splits)



lemma shotInv_upd [simp]:
  "shotInv (s\<lparr>log := l\<rparr>) = shotInv s"
  "shotInv (s\<lparr>hasActedThisTurn := b\<rparr>) = shotInv s"
  "shotInv (s\<lparr>hitLog := h\<rparr>) = shotInv s"
  "shotInv (s\<lparr>phase := ph\<rparr>) = shotInv s"
  "shotInv (s\<lparr>winner := w\<rparr>) = shotInv s"
  by (simp_all add: shotInv_def fun_eq_iff)

lemma shotInv_finish [simp]: "shotInv (finishClassic s ti e) ai = shotInv s ai"
proof -
  have "grid (players (finishClassic s ti e) ! j) = grid (players s ! j)
      \<and> ships (players (finishClassic s ti e) ! j) = ships (players s ! j)
      \<and> pid (players (finishClassic s ti e) ! j) = pid (players s ! j)
      \<and> shots (players (finishClassic s ti e) ! j) = shots (players s ! j)" for j
    by (cases "j = ti"; cases "ti < length (players s)")
       (simp_all add: finishClassic_def Let_def list_update_beyond)
  then show ?thesis by (simp add: shotInv_def)
qed







section \<open>The sink invariant over sequences of shots\<close>

















section \<open>The Radarship skill\<close>



section \<open>The Repairship skill\<close>

lemma damageTurn_recorded:
  "hitLog s = Some hl \<Longrightarrow> hl aid = Some m \<Longrightarrow> m c = Some t \<Longrightarrow> damageTurn s aid c = t"
  by (simp add: damageTurn_def)

lemma repairship_same_turn:
  assumes "turn s \<le> damageTurn s (pid (players s ! ai)) (x, y)"
    and "coordsOf opts = Some (x, y)"
  shows "repairship s ai opts = Some out \<Longrightarrow> out = Rejected s"
  using assms
  by (auto simp: repairship_def Let_def bind_eq_Some_conv split: if_splits)

lemma repairship_same_turn_returns:
  assumes "turn s \<le> damageTurn s (pid (players s ! ai)) (x, y)"
    and "coordsOf opts = Some (x, y)"
    and "cellAt (grid (players s ! ai)) x y \<noteq> None"
  shows "repairship s ai opts = Some (Rejected s)"
  using assms
  by (auto simp: repairship_def Let_def split: option.splits)

lemma repairship_applied:
  assumes "repairship s ai opts = Some (Applied s1 msg)"
    and "coordsOf opts = Some (x, y)"
  shows "\<exists>i. findIndex (\<lambda>sh. (x, y) \<in> set (positions sh)) (ships (players s ! ai)) = Some i
          \<and> \<not> isSunk (ships (players s ! ai) ! i)
          \<and> \<not> hasBeenRepaired (ships (players s ! ai) ! i)
          \<and> cellAt (grid (players s ! ai)) x y = Some (Some HIT)
          \<and> damageTurn s (pid (players s ! ai)) (x, y) < turn s"
  using assms
  by (auto simp: repairship_def Let_def bind_eq_Some_conv split: if_splits option.splits)

text \<open>
  C5. The Repairship skill on the cell \<open>(x, y)\<close>, for the player whose turn it is. When the
  damage-turn log holds the current turn for the cell, the invocation never succeeds, and
  it returns \<open>success = false\<close> whenever the row \<open>y\<close> of the caster's grid exists. When it
  succeeds, the cell belongs to a ship of the caster that is neither sunk nor repaired
  before, the cell reads \<open>HIT\<close> on the caster's grid, and the logged damage turn is
  before the current turn.
\<close>

theorem repairship_preconditions:
  assumes "findIndex (\<lambda>p. Some (pid p) = currentPlayerId s) (players s) = Some ai"
    and "opts = \<lparr>opt_x = Some x, opt_y = Some y, opt_isHorizontal = None,
                  opt_targetShipType = None\<rparr>"
  shows "(hitLog s = Some hl \<and> hl (pid (players s ! ai)) = Some m \<and> m (x, y) = Some (turn s) \<longrightarrow>
            (\<forall>st. handleUseSkill rnd game Repairship opts byAI (Some s) \<noteq> Some (True, st))
          \<and> (cellAt (grid (players s ! ai)) x y \<noteq> None \<longrightarrow>
               handleUseSkill rnd game Repairship opts byAI (Some s)
                 = Some (False, Some (s\<lparr>activeAction := None\<rparr>))))
       \<and> (handleUseSkill rnd game Repairship opts byAI (Some s) = Some (True, st') \<longrightarrow>
            (\<exists>i. findIndex (\<lambda>sh. (x, y) \<in> set (positions sh)) (ships (players s ! ai)) = Some i
               \<and> \<not> isSunk (ships (players s ! ai) ! i)
               \<and> \<not> hasBeenRepaired (ships (players s ! ai) ! i))
            \<and> cellAt (grid (players s ! ai)) x y = Some (Some HIT)
            \<and> (\<forall>hl' m'. hitLog s = Some hl' \<and> hl' (pid (players s ! ai)) = Some m'
                  \<longrightarrow> m' (x, y) \<noteq> Some (turn s)))"
proof -
  have co: "coordsOf opts = Some (x, y)" using assms(2) by (simp add: coordsOf_def)
  have unfold: "handleUseSkill rnd game Repairship opts byAI (Some s) =
      (case repairship s ai opts of
         None \<Rightarrow> None
       | Some (Rejected s1) \<Rightarrow> Some (False, Some (s1\<lparr>activeAction := None\<rparr>))
       | Some (Applied s1 msg) \<Rightarrow>
           Some (True, Some (s1\<lparr>log := \<lparr>le_turn = turn s, le_playerId = pid (players s ! ai),
                le_playerName = pname (players s ! ai), le_targetId = None, le_targetName = None,
                le_coords = None, le_result = LOG_SKILL_USED, le_sunkShipName = None,
                le_hitShipName = None, le_message = Some msg\<rparr> # log s1,
                                   hasActedThisTurn := True,
                                   activeAction := None\<rparr>)))"
    using assms(1)
    by (simp add: handleUseSkill_def skillLogic_def Let_def split: option.splits SkillOutcome.splits)
  have part1: "(\<forall>st. handleUseSkill rnd game Repairship opts byAI (Some s) \<noteq> Some (True, st))
          \<and> (cellAt (grid (players s ! ai)) x y \<noteq> None \<longrightarrow>
               handleUseSkill rnd game Repairship opts byAI (Some s)
                 = Some (False, Some (s\<lparr>activeAction := None\<rparr>)))"
    if rec: "hitLog s = Some hl" "hl (pid (players s ! ai)) = Some m" "m (x, y) = Some (turn s)"
  proof -
    from damageTurn_recorded[OF rec] have le: "turn s \<le> damageTurn s (pid (players s ! ai)) (x, y)"
      by simp
    have "handleUseSkill rnd game Repairship opts byAI (Some s) \<noteq> Some (True, st)" for st
      using repairship_same_turn[OF le co] unfolding unfold
      by (auto split: option.splits SkillOutcome.splits)
    moreover have "handleUseSkill rnd game Repairship opts byAI (Some s)
                 = Some (False, Some (s\<lparr>activeAction := None\<rparr>))"
      if "cellAt (grid (players s ! ai)) x y \<noteq> None"
      using repairship_same_turn_returns[OF le co that] unfolding unfold by simp
    ultimately show ?thesis by blast
  qed
  have part2: "(\<exists>i. findIndex (\<lambda>sh. (x, y) \<in> set (positions sh)) (ships (players s ! ai)) = Some i
               \<and> \<not> isSunk (ships (players s ! ai) ! i)
               \<and> \<not> hasBeenRepaired (ships (players s ! ai) ! i))
            \<and> cellAt (grid (players s ! ai)) x y = Some (Some HIT)
            \<and> (\<forall>hl' m'. hitLog s = Some hl' \<and> hl' (pid (players s ! ai)) = Some m'
                  \<longrightarrow> m' (x, y) \<noteq> Some (turn s))"
    if ok: "handleUseSkill rnd game Repairship opts byAI (Some s) = Some (True, st')"
  proof -
    from ok obtain s1 msg where "repairship s ai opts = Some (Applied s1 msg)"
      unfolding unfold by (auto split: option.splits SkillOutcome.splits)
    from repairship_applied[OF this co] obtain i where
      i: "findIndex (\<lambda>sh. (x, y) \<in> set (positions sh)) (ships (players s ! ai)) = Some i"
        "\<not> isSunk (ships (players s ! ai) ! i)" "\<not> hasBeenRepaired (ships (players s ! ai) ! i)"
        "cellAt (grid (players s ! ai)) x y = Some (Some HIT)"
        "damageTurn s (pid (players s ! ai)) (x, y) < turn s"
      by blast
    have "m' (x, y) \<noteq> Some (turn s)"
      if "hitLog s = Some hl'" "hl' (pid (players s ! ai)) = Some m'" for hl' m'
      using i(5) that by (auto simp: damageTurn_def)
    with i show ?thesis by blast
  qed
  from part1 part2 show ?thesis by blast
qed

section \<open>Rejected skills\<close>











section \<open>The skills on the example states\<close>

lemmas skill_eval_defs = handleUseSkill_def skillLogic_def radarship_def jamship_def
  repairship_def decoyship_def commandshipHuman_def mothershipHuman_def coordsOf_def
  horizontalOf_def setPlayer_def damageTurn_def jamBlock_def canPlaceShip_def footprint_def
  placeShip_def cellAt_def setCell_def at_def exSkillState_def exSkillA_def exSkillB_def
  exShip_def exEmptyGrid_def exCoords_def exArmedState_def exRestoredState_def Let_def
  upt_conv_Cons

lemma exSkillState_current:
  "findIndex (\<lambda>p. Some (pid p) = currentPlayerId (exSkillState t)) (players (exSkillState t))
     = Some 0"
  by (simp add: exSkillState_def exSkillA_def)

theorem repairship_preconditions_witness:
  "handleUseSkill exRnd None Repairship (exCoords 0 2) False (Some (exSkillState 3))
     = Some (False, Some ((exSkillState 3)\<lparr>activeAction := None\<rparr>))
   \<and> (\<exists>st. handleUseSkill exRnd None Repairship (exCoords 0 2) False (Some (exSkillState 2))
              = Some (True, st))
   \<and> gridCell 0 0 2 (exSkillState 2) = Some (Some HIT)"
proof -
  have rec: "hitLog (exSkillState 3) = Some [''a'' \<mapsto> [(0, 2) \<mapsto> 3]]
      \<and> [''a'' \<mapsto> [(0, 2) \<mapsto> (3::int)]] (pid (players (exSkillState 3) ! 0))
          = Some [(0, 2) \<mapsto> 3]
      \<and> [(0, 2) \<mapsto> (3::int)] (0, 2) = Some (turn (exSkillState 3))"
    by (simp add: exSkillState_def exSkillA_def)
  have row: "cellAt (grid (players (exSkillState 3) ! 0)) 0 2 \<noteq> None"
    by (simp add: exSkillState_def exSkillA_def cellAt_def at_def)
  note at3 = repairship_preconditions[OF exSkillState_current[of 3] exCoords_def[of 0 2],
      where hl = "[''a'' \<mapsto> [(0, 2) \<mapsto> 3]]" and m = "[(0, 2) \<mapsto> 3]" and rnd = exRnd
        and game = None and byAI = False]
  note first = at3[THEN conjunct1, THEN mp, OF rec, THEN conjunct2, THEN mp, OF row]
  have "\<exists>st. handleUseSkill exRnd None Repairship (exCoords 0 2) False (Some (exSkillState 2))
              = Some (True, st)"
    by (simp add: skill_eval_defs)
  then obtain st where
    ok: "handleUseSkill exRnd None Repairship (exCoords 0 2) False (Some (exSkillState 2))
              = Some (True, st)" by blast
  note at2 = repairship_preconditions[OF exSkillState_current[of 2] exCoords_def[of 0 2],
      where rnd = exRnd and game = None and byAI = False and st' = st]
  from at2[THEN conjunct2, THEN mp, OF ok]
  have "cellAt (grid (players (exSkillState 2) ! 0)) 0 2 = Some (Some HIT)"
    by blast
  then show ?thesis using first ok by (auto simp: gridCell_def)
qed





section \<open>What the action hub tests before a skill is armed\<close>

lemma handleActionSelect_cooldown_gate:
  assumes "skillCooldowns lp t = Some c" "0 < c"
  shows "handleActionSelect g p lp (ChooseSkill t) \<in> {NoEffect, SetActiveAction None}"
  using assms
  by (cases "find (\<lambda>sh. stype sh = t) (ships lp)")
     (simp_all add: handleActionSelect_def Let_def)

lemma handleActionSelect_ignores_jam:
  "handleActionSelect g p (lp\<lparr>jammedPositions := j, jamTurnsRemaining := n\<rparr>) a
     = handleActionSelect g p lp a"
  by (simp add: handleActionSelect_def Let_def cong: ActionChoice.case_cong option.case_cong if_cong)

section \<open>The Jamship skill and the turn after it\<close>

lemma exJam_applied:
  "handleUseSkill exRnd (Some (exSkillState 2)) Jamship (exCoords 0 0) False
     (Some (exSkillState 2)) = Some (True, Some exJammedState)"
  by (simp add: exJammedState_def skill_eval_defs)

lemma exJammedState_facts:
  "jammedPositions (players exJammedState ! 1) = Some [(0, 0), (1, 0), (0, 1), (1, 1)]"
  "jamTurnsRemaining (players exJammedState ! 1) = Some 1"
  "cooldownOf 0 Jamship exJammedState = Some 4"
  "currentPlayerId exJammedState = Some ''a''"
  "turn exJammedState = 3"
  "gameMode exJammedState = TACTICAL"
  by (simp_all add: exJammedState_def cooldownOf_def skill_eval_defs)

lemma skipEliminated_stays:
  "\<not> isEliminated (ps ! n) \<Longrightarrow> skipEliminated ps cur n = Some n"
  by (subst skipEliminated.simps) simp

lemma exJammedState_players:
  "players exJammedState =
     [exSkillA\<lparr>skillCooldowns := (skillCooldowns exSkillA)(Jamship \<mapsto> 4)\<rparr>,
      exSkillB\<lparr>jammedPositions := Some [(0, 0), (1, 0), (0, 1), (1, 1)],
               jamTurnsRemaining := Some 1\<rparr>]"
  by (simp add: exJammedState_def skill_eval_defs)

lemma exTurn_advanced: "advanceTurn exJammedState = Some exJammedTurn"
proof -
  have "\<exists>s. advanceTurn exJammedState = Some s"
    by (simp add: advanceTurn_def Let_def exJammedState_facts(4,5,6) exJammedState_players
          exSkillA_def exSkillB_def skipEliminated_stays)
  then show ?thesis by (auto simp: exJammedTurn_def)
qed

lemma exJammedTurn_facts:
  "currentPlayerId exJammedTurn = Some ''b''"
  "turn exJammedTurn = 4"
  "jammedPositions (players exJammedTurn ! 1) = Some [(0, 0), (1, 0), (0, 1), (1, 1)]"
  "jamTurnsRemaining (players exJammedTurn ! 1) = Some 1"
  "stype (ships (players exJammedTurn ! 1) ! 0) = Radarship"
  "shipPositions 1 0 exJammedTurn = [(0, 0), (1, 0)]"
  "cooldownOf 1 Radarship exJammedTurn = Some 0"
  by (simp_all add: exJammedTurn_def advanceTurn_def Let_def exJammedState_facts(4,5,6)
        exJammedState_players exSkillA_def exSkillB_def skipEliminated_stays endTurnPlayer_def
        decrementCooldowns_def clearsJammedArea_def shipPositions_def cooldownOf_def exShip_def)

lemma jamship_applied:
  assumes "jamship s ai d opts = Some out" "coordsOf opts = Some (x, y)"
    "ai < length (players s)"
  shows "\<exists>oi s1 msg. out = Applied s1 msg
           \<and> findIndex (\<lambda>p. pid p \<noteq> pid (players s ! ai)) (players s) = Some oi
           \<and> jammedPositions (players s1 ! oi) = Some (jamBlock d x y)
           \<and> jamTurnsRemaining (players s1 ! oi) = Some 1
           \<and> skillCooldowns (players s1 ! ai) Jamship = Some 4"
proof -
  from assms(1,2) obtain oi where
    oi: "findIndex (\<lambda>p. pid p \<noteq> pid (players s ! ai)) (players s) = Some oi"
    by (auto simp: jamship_def Let_def bind_eq_Some_conv)
  from findIndex_SomeD[OF oi] have "oi < length (players s)" "oi \<noteq> ai" by auto
  then show ?thesis using assms oi
    by (auto simp: jamship_def Let_def setPlayer_def)
qed

lemma exJammedTurn_players:
  "players exJammedTurn =
     [exSkillA\<lparr>skillCooldowns :=
                 [Radarship \<mapsto> 1, Commandship \<mapsto> 0, Repairship \<mapsto> 0, Jamship \<mapsto> 3]\<rparr>,
      exSkillB\<lparr>jammedPositions := Some [(0, 0), (1, 0), (0, 1), (1, 1)],
               jamTurnsRemaining := Some 1\<rparr>]"
  by (simp add: exJammedTurn_def advanceTurn_def Let_def exJammedState_facts(4,5,6)
        exJammedState_players exSkillA_def exSkillB_def skipEliminated_stays endTurnPlayer_def
        decrementCooldowns_def clearsJammedArea_def fun_eq_iff)

lemma exJammedTurn_dims: "gridDimensions exJammedTurn = \<lparr>rows = 3, cols = 3\<rparr>"
  by (simp add: exJammedTurn_def advanceTurn_def Let_def exJammedState_facts(4,5,6)
        exJammedState_players exSkillA_def exSkillB_def skipEliminated_stays
        exJammedState_def skill_eval_defs)

lemma exJammedTurn_radar:
  "map_option fst (handleUseSkill exRnd (Some exJammedTurn) Radarship (exCoords 0 1) True
     (Some exJammedTurn)) = Some True"
  by (simp add: handleUseSkill_def skillLogic_def radarship_def coordsOf_def exCoords_def
        setPlayer_def Let_def exJammedTurn_facts(1) exJammedTurn_players exJammedTurn_dims
        exSkillA_def exSkillB_def cellAt_def at_def exEmptyGrid_def)

text \<open>
  C6, on an example. Player \<open>a\<close> jams the block around (0,0): the Jamship skill succeeds,
  the four cells of the block inside the board are recorded as jammed on \<open>b\<close>, and the
  Jamship cooldown of \<open>a\<close> is 4. After \<open>advanceTurn\<close> it is the turn of \<open>b\<close>, whose
  Radarship lies on the jammed cells (0,0) and (1,0) while the jam is still recorded
  with one turn remaining. The Radarship skill of \<open>b\<close> nevertheless succeeds.
\<close>

theorem jammed_ship_skill_succeeds:
  "handleUseSkill exRnd (Some (exSkillState 2)) Jamship (exCoords 0 0) False
     (Some (exSkillState 2)) = Some (True, Some exJammedState)
   \<and> jammedPositions (players exJammedState ! 1) = Some [(0, 0), (1, 0), (0, 1), (1, 1)]
   \<and> cooldownOf 0 Jamship exJammedState = Some 4
   \<and> advanceTurn exJammedState = Some exJammedTurn
   \<and> currentPlayerId exJammedTurn = Some ''b''
   \<and> jammedPositions (players exJammedTurn ! 1) = Some [(0, 0), (1, 0), (0, 1), (1, 1)]
   \<and> jamTurnsRemaining (players exJammedTurn ! 1) = Some 1
   \<and> stype (ships (players exJammedTurn ! 1) ! 0) = Radarship
   \<and> shipPositions 1 0 exJammedTurn = [(0, 0), (1, 0)]
   \<and> map_option fst (handleUseSkill exRnd (Some exJammedTurn) Radarship (exCoords 0 1) True
        (Some exJammedTurn)) = Some True"
  using exJam_applied exJammedState_facts(1,3) exTurn_advanced exJammedTurn_facts(1,3,4,5,6)
    exJammedTurn_radar
  by simp

section \<open>The probability map, cell by cell\<close>

lemma shaped_row: "shaped r c m \<Longrightarrow> y < r \<Longrightarrow> length (m ! y) = c"
  by (simp add: shaped_def)

lemma shaped_updateAt: "shaped r c m \<Longrightarrow> shaped r c (updateAt m x y f)"
proof -
  assume s: "shaped r c m"
  show ?thesis
  proof (cases "y < length m")
    case True
    have "length ((m ! y)[x := f (m ! y ! x)]) = c" using s True by (simp add: shaped_def)
    then show ?thesis using s True
      by (auto simp: shaped_def updateAt_def set_conv_nth nth_list_update)
  next
    case False
    then show ?thesis using s by (simp add: updateAt_def list_update_beyond)
  qed
qed

lemma updateAt_nth:
  assumes "shaped r c m" "x < c" "y < r"
  shows "updateAt m x0 y0 f ! y ! x = (if x0 = x \<and> y0 = y then f (m ! y ! x) else m ! y ! x)"
proof -
  have len: "length m = r" "length (m ! y) = c"
    using assms shaped_row[OF assms(1,3)] by (auto simp: shaped_def)
  show ?thesis
  proof (cases "y0 = y")
    case True
    then show ?thesis using len assms(2,3) by (simp add: updateAt_def nth_list_update)
  next
    case False
    then show ?thesis using len assms(3) by (simp add: updateAt_def nth_list_update)
  qed
qed

lemma foldl_cell_add:
  assumes step: "\<And>m a. a \<in> set as \<Longrightarrow> shaped r c m \<Longrightarrow>
                   shaped r c (f m a) \<and> f m a ! y ! x = m ! y ! x + g a"
  shows "shaped r c m \<Longrightarrow>
           shaped r c (foldl f m as) \<and> foldl f m as ! y ! x = m ! y ! x + sum_list (map g as)"
  using step
proof (induction as arbitrary: m)
  case Nil
  then show ?case by simp
next
  case (Cons a as)
  from Cons.prems(2)[of a m] Cons.prems(1) have
    s1: "shaped r c (f m a)" "f m a ! y ! x = m ! y ! x + g a" by auto
  from Cons.IH[OF s1(1)] Cons.prems(2) have
    "shaped r c (foldl f (f m a) as) \<and>
     foldl f (f m a) as ! y ! x = f m a ! y ! x + sum_list (map g as)" by auto
  then show ?case using s1(2) by simp
qed

lemma foldl_cell_mult:
  assumes step: "\<And>m a. a \<in> set as \<Longrightarrow> shaped r c m \<Longrightarrow>
                   shaped r c (f m a) \<and> f m a ! y ! x = m ! y ! x * g a"
  shows "shaped r c m \<Longrightarrow>
           shaped r c (foldl f m as) \<and> foldl f m as ! y ! x = m ! y ! x * prod_list (map g as)"
  using step
proof (induction as arbitrary: m)
  case Nil
  then show ?case by simp
next
  case (Cons a as)
  from Cons.prems(2)[of a m] Cons.prems(1) have
    s1: "shaped r c (f m a)" "f m a ! y ! x = m ! y ! x * g a" by auto
  from Cons.IH[OF s1(1)] Cons.prems(2) have
    "shaped r c (foldl f (f m a) as) \<and>
     foldl f (f m a) as ! y ! x = f m a ! y ! x * prod_list (map g as)" by auto
  then show ?case using s1(2) by (simp add: mult.assoc)
qed

lemma sum_list_indicator:
  "sum_list (map (\<lambda>a. if Q a then (1::int) else 0) xs) = int (length (filter Q xs))"
  by (induction xs) auto

lemma length_filter_concat_map:
  "int (length (filter P (concat (map f xs))))
     = sum_list (map (\<lambda>a. int (length (filter P (f a)))) xs)"
  by (induction xs) auto

lemma covers_once:
  "length (filter (\<lambda>i. k + i = (j::nat)) [0..<n]) = (if k \<le> j \<and> j < k + n then 1 else 0)"
proof (induction n)
  case 0
  then show ?case by simp
next
  case (Suc n)
  then show ?case by auto
qed

lemma addFootprint_cell:
  assumes "shaped r c m" "x < c" "y < r"
  shows "shaped r c (addFootprint m n x0 y0 h) \<and>
         addFootprint m n x0 y0 h ! y ! x
           = m ! y ! x + (if (x, y) \<in> set (aiFootprint (int n) x0 y0 h) then 1 else 0)"
proof -
  let ?g = "\<lambda>i. if (if h then x0 + i = x \<and> y0 = y else x0 = x \<and> y0 + i = y) then (1::int) else 0"
  have "shaped r c (addFootprint m n x0 y0 h) \<and>
        addFootprint m n x0 y0 h ! y ! x = m ! y ! x + sum_list (map ?g [0..<n])"
    unfolding addFootprint_def
    by (rule foldl_cell_add[OF _ assms(1)])
       (auto simp: shaped_updateAt updateAt_nth[OF _ assms(2,3)])
  moreover have "sum_list (map ?g [0..<n])
      = (if (x, y) \<in> set (aiFootprint (int n) x0 y0 h) then 1 else 0)"
  proof (cases h)
    case True
    have "sum_list (map ?g [0..<n]) = int (length (filter (\<lambda>i. x0 + i = x \<and> y0 = y) [0..<n]))"
      using True by (simp add: sum_list_indicator)
    also have "\<dots> = (if y0 = y \<and> x0 \<le> x \<and> x < x0 + n then 1 else 0)"
      using covers_once[of x0 x n] by (cases "y0 = y") auto
    also have "\<dots> = (if (x, y) \<in> set (aiFootprint (int n) x0 y0 h) then 1 else 0)"
      using True by (auto simp: aiFootprint_def intro: image_eqI[where x = "x - x0"])
    finally show ?thesis .
  next
    case False
    have "sum_list (map ?g [0..<n]) = int (length (filter (\<lambda>i. x0 = x \<and> y0 + i = y) [0..<n]))"
      using False by (simp add: sum_list_indicator)
    also have "\<dots> = (if x0 = x \<and> y0 \<le> y \<and> y < y0 + n then 1 else 0)"
      using covers_once[of y0 y n] by (cases "x0 = x") auto
    also have "\<dots> = (if (x, y) \<in> set (aiFootprint (int n) x0 y0 h) then 1 else 0)"
      using False by (auto simp: aiFootprint_def intro: image_eqI[where x = "y - y0"])
    finally show ?thesis .
  qed
  ultimately show ?thesis by simp
qed


lemma hitCellsOf_distinct: "distinct (hitCellsOf g d)"
proof -
  have "distinct (concat (map (\<lambda>y. map (\<lambda>x. (x, y)) (filter (Q y) [0..<C])) [0..<R]))"
    for Q :: "nat \<Rightarrow> nat \<Rightarrow> bool" and C R
    by (induction R) (auto simp: distinct_map inj_on_def)
  then show ?thesis unfolding hitCellsOf_def .
qed

lemma hitCellsOf_set:
  "set (hitCellsOf g d)
     = {(x, y). x < nat (cols d) \<and> y < nat (rows d) \<and> cellOr g (int x) (int y) = HIT}"
  by (auto simp: hitCellsOf_def)

lemma canShipBePlaced_iff:
  assumes "x0 < nat (cols d)" "y0 < nat (rows d)"
  shows "canShipBePlaced g n (int x0) (int y0) h d
           \<longleftrightarrow> inBounds d n x0 y0 h \<and> throughNoMiss g n x0 y0 h"
proof (cases "0 < n")
  case False
  then show ?thesis using assms
    by (cases h) (auto simp: canShipBePlaced_def inBounds_def throughNoMiss_def aiFootprint_def)
next
  case True
  have last: "nat n - 1 < nat n" using True by simp
  show ?thesis
  proof (cases h)
    case True
    have "(\<not> cols d < int x0 + n) \<longleftrightarrow> (\<forall>i<nat n. int x0 + int i < cols d)"
    proof
      assume "\<not> cols d < int x0 + n"
      then show "\<forall>i<nat n. int x0 + int i < cols d" by auto
    next
      assume a: "\<forall>i<nat n. int x0 + int i < cols d"
      from a last have "int x0 + int (nat n - 1) < cols d" by blast
      then show "\<not> cols d < int x0 + n" using \<open>0 < n\<close> by simp
    qed
    then show ?thesis using True assms
      by (auto simp: canShipBePlaced_def inBounds_def throughNoMiss_def aiFootprint_def
                     list_all_iff)
  next
    case False
    have "(\<not> rows d < int y0 + n) \<longleftrightarrow> (\<forall>i<nat n. int y0 + int i < rows d)"
    proof
      assume "\<not> rows d < int y0 + n"
      then show "\<forall>i<nat n. int y0 + int i < rows d" by auto
    next
      assume a: "\<forall>i<nat n. int y0 + int i < rows d"
      from a last have "int y0 + int (nat n - 1) < rows d" by blast
      then show "\<not> rows d < int y0 + n" using \<open>0 < n\<close> by simp
    qed
    then show ?thesis using False assms
      by (auto simp: canShipBePlaced_def inBounds_def throughNoMiss_def aiFootprint_def
                     list_all_iff)
  qed
qed

lemma hits_agree_horizontal:
  assumes "\<not> cols d < int x0 + n" "y0 < nat (rows d)"
  shows "length (filter (\<lambda>i. cellOr g (int x0 + int i) (int y0) = HIT) [0..<nat n])
       = length (filter (\<lambda>h. snd h = y0 \<and> x0 \<le> fst h \<and> int (fst h) < int x0 + n)
                        (hitCellsOf g d))"
proof -
  let ?I = "{i. i < nat n \<and> cellOr g (int x0 + int i) (int y0) = HIT}"
  let ?P = "\<lambda>h::nat \<times> nat. snd h = y0 \<and> x0 \<le> fst h \<and> int (fst h) < int x0 + n"
  have l: "length (filter (\<lambda>i. cellOr g (int x0 + int i) (int y0) = HIT) [0..<nat n]) = card ?I"
    by (subst distinct_card[symmetric]) (auto intro!: arg_cong[where f = card])
  have "set (filter ?P (hitCellsOf g d)) = (\<lambda>i. (x0 + i, y0)) ` ?I"
  proof (rule set_eqI, rule iffI)
    fix c assume "c \<in> set (filter ?P (hitCellsOf g d))"
    then have "c \<in> set (hitCellsOf g d)" and p: "?P c" by simp_all
    then have "cellOr g (int (fst c)) (int (snd c)) = HIT"
      unfolding hitCellsOf_set by (simp add: case_prod_beta)
    with p obtain x where c: "c = (x, y0)" and x: "x0 \<le> x" "int x < int x0 + n"
        and hit: "cellOr g (int x) (int y0) = HIT"
      by (cases c) simp
    have "x - x0 \<in> ?I" using x hit by auto
    moreover have "c = (x0 + (x - x0), y0)" using c x by simp
    ultimately show "c \<in> (\<lambda>i. (x0 + i, y0)) ` ?I" by (rule rev_image_eqI)
  next
    fix c assume "c \<in> (\<lambda>i. (x0 + i, y0)) ` ?I"
    then obtain i where i: "i < nat n" "cellOr g (int x0 + int i) (int y0) = HIT"
        and c: "c = (x0 + i, y0)" by auto
    have "x0 + i < nat (cols d)" using i(1) assms(1) by linarith
    then show "c \<in> set (filter ?P (hitCellsOf g d))"
      using i c assms(2) by (auto simp: hitCellsOf_set)
  qed
  then have "card (set (filter ?P (hitCellsOf g d))) = card ((\<lambda>i. (x0 + i, y0)) ` ?I)" by simp
  also have "\<dots> = card ?I" by (rule card_image) (simp add: inj_on_def)
  finally have "length (filter ?P (hitCellsOf g d)) = card ?I"
    using distinct_card[OF distinct_filter[OF hitCellsOf_distinct, of ?P g d]] by simp
  with l show ?thesis by simp
qed

lemma hits_agree_vertical:
  assumes "\<not> rows d < int y0 + n" "x0 < nat (cols d)"
  shows "length (filter (\<lambda>i. cellOr g (int x0) (int y0 + int i) = HIT) [0..<nat n])
       = length (filter (\<lambda>h. fst h = x0 \<and> y0 \<le> snd h \<and> int (snd h) < int y0 + n)
                        (hitCellsOf g d))"
proof -
  let ?I = "{i. i < nat n \<and> cellOr g (int x0) (int y0 + int i) = HIT}"
  let ?P = "\<lambda>h::nat \<times> nat. fst h = x0 \<and> y0 \<le> snd h \<and> int (snd h) < int y0 + n"
  have l: "length (filter (\<lambda>i. cellOr g (int x0) (int y0 + int i) = HIT) [0..<nat n]) = card ?I"
    by (subst distinct_card[symmetric]) (auto intro!: arg_cong[where f = card])
  have "set (filter ?P (hitCellsOf g d)) = (\<lambda>i. (x0, y0 + i)) ` ?I"
  proof (rule set_eqI, rule iffI)
    fix c assume "c \<in> set (filter ?P (hitCellsOf g d))"
    then have "c \<in> set (hitCellsOf g d)" and p: "?P c" by simp_all
    then have "cellOr g (int (fst c)) (int (snd c)) = HIT"
      unfolding hitCellsOf_set by (simp add: case_prod_beta)
    with p obtain y where c: "c = (x0, y)" and y: "y0 \<le> y" "int y < int y0 + n"
        and hit: "cellOr g (int x0) (int y) = HIT"
      by (cases c) simp
    have "y - y0 \<in> ?I" using y hit by auto
    moreover have "c = (x0, y0 + (y - y0))" using c y by simp
    ultimately show "c \<in> (\<lambda>i. (x0, y0 + i)) ` ?I" by (rule rev_image_eqI)
  next
    fix c assume "c \<in> (\<lambda>i. (x0, y0 + i)) ` ?I"
    then obtain i where i: "i < nat n" "cellOr g (int x0) (int y0 + int i) = HIT"
        and c: "c = (x0, y0 + i)" by auto
    have "y0 + i < nat (rows d)" using i(1) assms(1) by linarith
    then show "c \<in> set (filter ?P (hitCellsOf g d))"
      using i c assms(2) by (auto simp: hitCellsOf_set)
  qed
  then have "card (set (filter ?P (hitCellsOf g d))) = card ((\<lambda>i. (x0, y0 + i)) ` ?I)" by simp
  also have "\<dots> = card ?I" by (rule card_image) (simp add: inj_on_def)
  finally have "length (filter ?P (hitCellsOf g d)) = card ?I"
    using distinct_card[OF distinct_filter[OF hitCellsOf_distinct, of ?P g d]] by simp
  with l show ?thesis by simp
qed

lemma tryPlacement_counts:
  assumes "x0 < nat (cols d)" "y0 < nat (rows d)"
  shows "tryPlacement g d (hitCellsOf g d) m n x0 y0 h
           = (if inBounds d n x0 y0 h \<and> throughNoMiss g n x0 y0 h
              then addFootprint m (nat n) x0 y0 h else m)"
proof (cases "canShipBePlaced g n (int x0) (int y0) h d")
  case False
  then have "tryPlacement g d (hitCellsOf g d) m n x0 y0 h = m"
    by (simp add: tryPlacement_def)
  moreover have "\<not> (inBounds d n x0 y0 h \<and> throughNoMiss g n x0 y0 h)"
    using False canShipBePlaced_iff[OF assms, of g n h] by simp
  ultimately show ?thesis by auto
next
  case True
  have "length (filter (\<lambda>i. if h then cellOr g (int x0 + int i) (int y0) = HIT
                               else cellOr g (int x0) (int y0 + int i) = HIT) [0..<nat n])
      = length (filter (\<lambda>c. if h then snd c = y0 \<and> x0 \<le> fst c \<and> int (fst c) < int x0 + n
                               else fst c = x0 \<and> y0 \<le> snd c \<and> int (snd c) < int y0 + n)
                       (hitCellsOf g d))"
  proof (cases h)
    case True
    with \<open>canShipBePlaced g n (int x0) (int y0) h d\<close> have "\<not> cols d < int x0 + n"
      by (simp add: canShipBePlaced_def)
    from hits_agree_horizontal[OF this assms(2)] True show ?thesis by simp
  next
    case False
    with \<open>canShipBePlaced g n (int x0) (int y0) h d\<close> have "\<not> rows d < int y0 + n"
      by (simp add: canShipBePlaced_def)
    from hits_agree_vertical[OF this assms(1)] False show ?thesis by simp
  qed
  then have "tryPlacement g d (hitCellsOf g d) m n x0 y0 h = addFootprint m (nat n) x0 y0 h"
    using True by (simp add: tryPlacement_def Let_def)
  moreover have "inBounds d n x0 y0 h \<and> throughNoMiss g n x0 y0 h"
    using True canShipBePlaced_iff[OF assms, of g n h] by simp
  ultimately show ?thesis by simp
qed

lemma tryPlacement_cell:
  assumes "shaped (nat (rows d)) (nat (cols d)) m" "x < nat (cols d)" "y < nat (rows d)"
      and "x0 < nat (cols d)" "y0 < nat (rows d)"
  shows "shaped (nat (rows d)) (nat (cols d)) (tryPlacement g d (hitCellsOf g d) m n x0 y0 h) \<and>
         tryPlacement g d (hitCellsOf g d) m n x0 y0 h ! y ! x
           = m ! y ! x + (if inBounds d n x0 y0 h \<and> throughNoMiss g n x0 y0 h
                             \<and> (x, y) \<in> set (aiFootprint n x0 y0 h) then 1 else 0)"
proof -
  have fp: "aiFootprint (int (nat n)) x0 y0 h = aiFootprint n x0 y0 h"
    by (simp add: aiFootprint_def)
  note af = addFootprint_cell[OF assms(1,2,3), of "nat n" x0 y0 h, unfolded fp]
  show ?thesis
  proof (cases "inBounds d n x0 y0 h \<and> throughNoMiss g n x0 y0 h")
    case True
    then have "tryPlacement g d (hitCellsOf g d) m n x0 y0 h = addFootprint m (nat n) x0 y0 h"
      by (simp add: tryPlacement_counts[OF assms(4,5)])
    then show ?thesis using af True by auto
  next
    case False
    then have "tryPlacement g d (hitCellsOf g d) m n x0 y0 h = m"
      by (auto simp: tryPlacement_counts[OF assms(4,5)])
    then show ?thesis using assms(1) False by auto
  qed
qed

lemma filter_pair_count:
  "int (length (filter P [a, b])) = (if P a then 1 else 0) + (if P b then 1 else 0)"
  by simp

lemma rawCount_sum:
  "int (rawCount g d lengths x y)
     = sum_list (map (\<lambda>n. sum_list (map (\<lambda>y0. sum_list (map (\<lambda>x0.
          (if inBounds d n x0 y0 True \<and> throughNoMiss g n x0 y0 True
                \<and> (x, y) \<in> set (aiFootprint n x0 y0 True) then 1 else 0)
        + (if inBounds d n x0 y0 False \<and> throughNoMiss g n x0 y0 False
                \<and> (x, y) \<in> set (aiFootprint n x0 y0 False) then 1 else 0))
          [0..<nat (cols d)])) [0..<nat (rows d)])) lengths)"
  unfolding rawCount_def candidates_def
  by (simp only: length_filter_concat_map filter_pair_count prod.case)

lemma accumulate_cell:
  assumes m0: "shaped (nat (rows d)) (nat (cols d)) m0"
      and xy: "x < nat (cols d)" "y < nat (rows d)"
  shows "shaped (nat (rows d)) (nat (cols d)) (accumulate g d (hitCellsOf g d) m0 lengths) \<and>
         accumulate g d (hitCellsOf g d) m0 lengths ! y ! x
           = m0 ! y ! x + int (rawCount g d lengths x y)"
proof -
  let ?R = "nat (rows d)" and ?C = "nat (cols d)"
  let ?c = "\<lambda>n x0 y0 h. if inBounds d n x0 y0 h \<and> throughNoMiss g n x0 y0 h
                             \<and> (x, y) \<in> set (aiFootprint n x0 y0 h) then (1::int) else 0"
  let ?fx = "\<lambda>n y0 m3 x0. tryPlacement g d (hitCellsOf g d)
                (tryPlacement g d (hitCellsOf g d) m3 n x0 y0 True) n x0 y0 False"
  let ?fy = "\<lambda>n m2 y0. foldl (?fx n y0) m2 [0..<?C]"
  let ?fn = "\<lambda>m1 n. foldl (?fy n) m1 [0..<?R]"
  have stepx: "shaped ?R ?C (?fx n y0 m x0) \<and>
               ?fx n y0 m x0 ! y ! x = m ! y ! x + (?c n x0 y0 True + ?c n x0 y0 False)"
    if "shaped ?R ?C m" "x0 \<in> set [0..<?C]" "y0 \<in> set [0..<?R]" for m n x0 y0
  proof -
    from that have b: "x0 < ?C" "y0 < ?R" by simp_all
    note t1 = tryPlacement_cell[OF that(1) xy b, of g n True]
    note t2 = tryPlacement_cell[OF conjunct1[OF t1] xy b, of g n False]
    show ?thesis using t1 t2 by simp
  qed
  have stepy: "shaped ?R ?C (?fy n m y0) \<and>
               ?fy n m y0 ! y ! x
                 = m ! y ! x + sum_list (map (\<lambda>x0. ?c n x0 y0 True + ?c n x0 y0 False) [0..<?C])"
    if "shaped ?R ?C m" "y0 \<in> set [0..<?R]" for m n y0
    by (rule foldl_cell_add[OF _ that(1)]) (rule stepx[OF _ _ that(2)])
  have stepn: "shaped ?R ?C (?fn m n) \<and>
               ?fn m n ! y ! x
                 = m ! y ! x + sum_list (map (\<lambda>y0.
                     sum_list (map (\<lambda>x0. ?c n x0 y0 True + ?c n x0 y0 False) [0..<?C])) [0..<?R])"
    if "shaped ?R ?C m" for m n
    by (rule foldl_cell_add[OF _ that]) (rule stepy)
  have "shaped ?R ?C (foldl ?fn m0 lengths) \<and>
        foldl ?fn m0 lengths ! y ! x
          = m0 ! y ! x + sum_list (map (\<lambda>n. sum_list (map (\<lambda>y0.
                     sum_list (map (\<lambda>x0. ?c n x0 y0 True + ?c n x0 y0 False) [0..<?C])) [0..<?R]))
                lengths)"
    by (rule foldl_cell_add[OF _ m0]) (rule stepn)
  then show ?thesis unfolding accumulate_def rawCount_sum .
qed

lemma prod_list_indicator:
  "prod_list (map (\<lambda>a. if Q a then (k::int) else 1) xs) = k ^ length (filter Q xs)"
  by (induction xs) auto

lemma boostCell_cell:
  assumes "shaped (nat (rows d)) (nat (cols d)) m" "x < nat (cols d)" "y < nat (rows d)"
  shows "shaped (nat (rows d)) (nat (cols d)) (boostCell g d m c) \<and>
         boostCell g d m c ! y ! x
           = m ! y ! x * (if c = (int x, int y) \<and> cellOr g (int x) (int y) = EMPTY then 5 else 1)"
proof (cases "0 \<le> fst c \<and> fst c < cols d \<and> 0 \<le> snd c \<and> snd c < rows d
                \<and> cellOr g (fst c) (snd c) = EMPTY")
  case True
  then have b: "boostCell g d m c = updateAt m (nat (fst c)) (nat (snd c)) (\<lambda>v. v * 5)"
    by (simp add: boostCell_def)
  have "(nat (fst c) = x \<and> nat (snd c) = y) \<longleftrightarrow> c = (int x, int y)"
    using True by (cases c) auto
  then show ?thesis
    using True shaped_updateAt[OF assms(1)] updateAt_nth[OF assms]
    by (auto simp: b)
next
  case False
  then have b: "boostCell g d m c = m" by (auto simp: boostCell_def)
  have "\<not> (c = (int x, int y) \<and> cellOr g (int x) (int y) = EMPTY)"
    using False assms(2,3) by auto
  then show ?thesis using assms(1) by (auto simp: b)
qed

lemma neighbours_once:
  "prod_list (map (\<lambda>c. if c = p \<and> E then (5::int) else 1) (neighbours h))
     = (if p \<in> set (neighbours h) \<and> E then 5 else 1)"
  by (cases p) (auto simp: neighbours_def)

lemma boost_cell:
  assumes m: "shaped (nat (rows d)) (nat (cols d)) m"
      and xy: "x < nat (cols d)" "y < nat (rows d)"
  shows "shaped (nat (rows d)) (nat (cols d)) (boost g d (hitCellsOf g d) m) \<and>
         boost g d (hitCellsOf g d) m ! y ! x
           = m ! y ! x * (if cellOr g (int x) (int y) = EMPTY
                          then 5 ^ adjacentHits g d x y else 1)"
proof -
  let ?R = "nat (rows d)" and ?C = "nat (cols d)"
  let ?E = "cellOr g (int x) (int y) = EMPTY"
  have inner: "shaped ?R ?C (foldl (boostCell g d) m1 (neighbours h)) \<and>
               foldl (boostCell g d) m1 (neighbours h) ! y ! x
                 = m1 ! y ! x * (if (int x, int y) \<in> set (neighbours h) \<and> ?E then 5 else 1)"
    if "shaped ?R ?C m1" for m1 h
  proof -
    have "shaped ?R ?C (foldl (boostCell g d) m1 (neighbours h)) \<and>
          foldl (boostCell g d) m1 (neighbours h) ! y ! x
            = m1 ! y ! x * prod_list (map (\<lambda>c. if c = (int x, int y) \<and> ?E then 5 else 1)
                                          (neighbours h))"
      by (rule foldl_cell_mult[OF _ that]) (rule boostCell_cell[OF _ xy])
    then show ?thesis by (simp only: neighbours_once)
  qed
  have "shaped ?R ?C (boost g d (hitCellsOf g d) m) \<and>
        boost g d (hitCellsOf g d) m ! y ! x
          = m ! y ! x * prod_list (map (\<lambda>h. if (int x, int y) \<in> set (neighbours h) \<and> ?E
                                              then 5 else 1) (hitCellsOf g d))"
    unfolding boost_def by (rule foldl_cell_mult[OF _ m]) (rule inner)
  moreover have "prod_list (map (\<lambda>h. if (int x, int y) \<in> set (neighbours h) \<and> ?E
                                        then (5::int) else 1) (hitCellsOf g d))
      = (if ?E then 5 ^ adjacentHits g d x y else 1)"
  proof (cases ?E)
    case True
    then show ?thesis by (simp add: prod_list_indicator adjacentHits_def)
  next
    case False
    have "prod_list (map (\<lambda>h. 1::int) xs) = 1" for xs :: "(nat \<times> nat) list"
      by (induction xs) auto
    then show ?thesis using False by simp
  qed
  ultimately show ?thesis by simp
qed

lemma shaped_replicate: "shaped r c (replicate r (replicate c 0))"
  by (simp add: shaped_def)

lemma heatmap_cell:
  assumes xy: "x < nat (cols d)" "y < nat (rows d)"
  shows "\<exists>m. heatmap lengths g d = Some m \<and>
             m ! y ! x = int (rawCount g d lengths x y)
                          * (if cellOr g (int x) (int y) = EMPTY
                             then 5 ^ adjacentHits g d x y else 1)"
proof -
  let ?R = "nat (rows d)" and ?C = "nat (cols d)"
  let ?m0 = "replicate ?R (replicate ?C (0::int))"
  let ?acc = "accumulate g d (hitCellsOf g d) ?m0 lengths"
  have ret: "heatmap lengths g d = Some (boost g d (hitCellsOf g d) ?acc)"
    using xy by (auto simp: heatmap_def Let_def)
  have z: "?m0 ! y ! x = 0" using xy by simp
  note a = accumulate_cell[OF shaped_replicate xy, of g lengths]
  note b = boost_cell[OF conjunct1[OF a] xy, of g]
  show ?thesis using ret a b z by simp
qed

lemma ex_raw: "rawCount exHeatShots exHeatDims [2, 2] (Suc 0) 0 = 6"
  by code_simp

lemma ex_adj: "adjacentHits exHeatShots exHeatDims (Suc 0) 0 = 2"
  by code_simp

lemma ex_cell: "cellOr exHeatShots 1 0 = EMPTY"
  by code_simp


lemma exHeatOpponent_lengths:
  "map slength (filter (\<lambda>sh. \<not> isSunk sh) (ships exHeatOpponent)) = [2, 2]"
  by (simp add: exHeatOpponent_def exShip_def)

text \<open>
  C8, amended. For every cell \<open>(x, y)\<close> inside the dimensions, \<open>buildProbabilityMap\<close>
  returns a map, and: a candidate placement (a length of a ship that is not sunk, a start
  cell inside the dimensions, an orientation) adds one to every cell of its footprint iff
  the footprint is fully in bounds and passes through no \<open>MISS\<close> cell, the comparison of
  \<open>placementHits\<close> with \<open>relevantHits\<close> never rejecting such a placement; and the value of
  the cell in the returned map is its raw count, multiplied by 5 once for every \<open>HIT\<close>
  cell it is adjacent to when it is still \<open>EMPTY\<close> in the shot grid (so by
  \<open>5 ^ k\<close> for \<open>k\<close> adjacent hits), and not multiplied otherwise.
\<close>

theorem buildProbabilityMap_cell:
  assumes "x < nat (cols d)" "y < nat (rows d)"
  shows "(\<forall>n x0 y0 h m'. x0 < nat (cols d) \<longrightarrow> y0 < nat (rows d) \<longrightarrow>
            tryPlacement g d (hitCellsOf g d) m' n x0 y0 h
              = (if inBounds d n x0 y0 h \<and> throughNoMiss g n x0 y0 h
                 then addFootprint m' (nat n) x0 y0 h else m'))
       \<and> (\<forall>m' n x0 y0 h. shaped (nat (rows d)) (nat (cols d)) m' \<longrightarrow>
            addFootprint m' n x0 y0 h ! y ! x
              = m' ! y ! x + (if (x, y) \<in> set (aiFootprint (int n) x0 y0 h) then 1 else 0))
       \<and> (\<exists>m. buildProbabilityMap opponent g d = Some m
              \<and> m ! y ! x
                  = int (rawCount g d (map slength (filter (\<lambda>sh. \<not> isSunk sh) (ships opponent)))
                           x y)
                    * (if cellOr g (int x) (int y) = EMPTY
                       then 5 ^ adjacentHits g d x y else 1))"
proof (intro conjI allI impI)
  fix n x0 y0 h m'
  assume "x0 < nat (cols d)" "y0 < nat (rows d)"
  then show "tryPlacement g d (hitCellsOf g d) m' n x0 y0 h
              = (if inBounds d n x0 y0 h \<and> throughNoMiss g n x0 y0 h
                 then addFootprint m' (nat n) x0 y0 h else m')"
    by (rule tryPlacement_counts)
next
  fix m' n x0 y0 h
  assume "shaped (nat (rows d)) (nat (cols d)) m'"
  from addFootprint_cell[OF this assms, of n x0 y0 h]
  show "addFootprint m' n x0 y0 h ! y ! x
          = m' ! y ! x + (if (x, y) \<in> set (aiFootprint (int n) x0 y0 h) then 1 else 0)"
    by simp
next
  show "\<exists>m. buildProbabilityMap opponent g d = Some m
              \<and> m ! y ! x
                  = int (rawCount g d (map slength (filter (\<lambda>sh. \<not> isSunk sh) (ships opponent)))
                           x y)
                    * (if cellOr g (int x) (int y) = EMPTY
                       then 5 ^ adjacentHits g d x y else 1)"
    unfolding buildProbabilityMap_def by (rule heatmap_cell[OF assms])
qed

theorem buildProbabilityMap_cell_witness:
  "1 < nat (cols exHeatDims) \<and> 0 < nat (rows exHeatDims)
   \<and> (\<exists>m. buildProbabilityMap exHeatOpponent exHeatShots exHeatDims = Some m
          \<and> m ! 0 ! 1 = 6 * 5 ^ 2)"
proof -
  have b: "1 < nat (cols exHeatDims)" "0 < nat (rows exHeatDims)"
    by (simp_all add: exHeatDims_def)
  from buildProbabilityMap_cell[OF b, of exHeatShots exHeatOpponent, THEN conjunct2,
      THEN conjunct2]
  show ?thesis using b by (simp add: exHeatOpponent_lengths ex_raw ex_adj ex_cell)
qed

text \<open>
  The claim as stated (one factor of 5 for a cell, however many hits it is next to) fails
  on the example board: the cell (1,0) is empty and lies between the two hits; its raw
  count is 6, and its value in the map is 150, not 30.
\<close>

theorem two_adjacent_hits_counterexample:
  "\<exists>m. buildProbabilityMap exHeatOpponent exHeatShots exHeatDims = Some m
       \<and> cellOr exHeatShots 1 0 = EMPTY
       \<and> adjacentHits exHeatShots exHeatDims 1 0 = 2
       \<and> rawCount exHeatShots exHeatDims
            (map slength (filter (\<lambda>sh. \<not> isSunk sh) (ships exHeatOpponent))) 1 0 = 6
       \<and> m ! 0 ! 1 = 150
       \<and> m ! 0 ! 1 \<noteq> 5 * 6"
proof -
  have b: "1 < nat (cols exHeatDims)" "0 < nat (rows exHeatDims)"
    by (simp_all add: exHeatDims_def)
  from heatmap_cell[OF b, of "[2, 2]" exHeatShots]
  obtain m where "heatmap [2, 2] exHeatShots exHeatDims = Some m" "m ! 0 ! 1 = 150"
    by (auto simp: ex_raw ex_adj ex_cell)
  then show ?thesis
    by (simp add: buildProbabilityMap_def exHeatOpponent_lengths ex_raw ex_adj ex_cell)
qed


end
